theory Spec2Isabelle
  imports Complex_Main "HOL-Library.Multiset" "HOL-Library.Char_ord" "HOL-Library.List_Lexorder"
    "HOL-Library.Monad_Syntax"
begin

section \<open>Numbers and JavaScript idioms\<close>

text \<open>
  Every amount of the calculator is a JavaScript \<^verbatim>\<open>number\<close>, an IEEE 754 double. The model
  keeps a number as the rational it denotes (type \<^typ>\<open>rat\<close>) and rounds the result of
  every arithmetic operation: IEEE 754 defines the sum, difference, product and quotient
  of two doubles as the exact result, rounded to the format, so \<^verbatim>\<open>x + y\<close> is \<open>fl (x + y)\<close>
  and \<^verbatim>\<open>x * y\<close> is \<open>fl (x * y)\<close>, where \<open>fl\<close> is the rounding of the format. The rounding is a
  parameter of every function that computes, named \<open>fl\<close> throughout; a theorem holds for
  every \<open>fl\<close> unless it says what it needs of it. Comparisons, \<^verbatim>\<open>Math.min\<close>, \<^verbatim>\<open>Math.max\<close> and
  \<^verbatim>\<open>Math.round\<close> are exact on doubles and are not rounded. A whole-number literal of the
  source denotes itself; a literal with a fractional part (\<^verbatim>\<open>0.025\<close>, \<^verbatim>\<open>0.01\<close>, \<^verbatim>\<open>0.30\<close>)
  denotes \<open>fl\<close> of its decimal value. \<^verbatim>\<open>NaN\<close> and the infinities are not represented:
  the amounts are finite, and every division of the source is guarded by a test that the
  divisor is positive, which the model keeps.

  An optional field (\<^verbatim>\<open>x?: number\<close>, or a property of an \<^verbatim>\<open>any\<close> object that may be
  missing) is an \<^typ>\<open>rat option\<close>. The idiom \<^verbatim>\<open>x || d\<close> takes the default \<open>d\<close> when
  \<open>x\<close> is missing and also when \<open>x\<close> is \<open>0\<close>, because \<open>0\<close> is falsy.

  Record fields carry a short prefix naming their record (\<open>cp_\<close> for CalculationParams,
  \<open>cfg_\<close> for a package configuration, \<open>cs_\<close> for the calculator settings, \<open>pd_\<close> for
  PackageData, \<open>cr_\<close> for CalculationResult), since several records of the source share
  field names.
\<close>

definition js_or :: "rat option \<Rightarrow> rat \<Rightarrow> rat" where
  "js_or x d = (case x of None \<Rightarrow> d | Some v \<Rightarrow> if v = 0 then d else v)"

text \<open>
  What the theorems that compare two computations need of the rounding: it keeps \<open>0\<close>,
  rounding twice is rounding once, and it keeps the order. The rounding to nearest of
  IEEE 754 has the three properties.
\<close>

definition rounding :: "(rat \<Rightarrow> rat) \<Rightarrow> bool" where
  "rounding fl \<longleftrightarrow> fl 0 = 0 \<and> (\<forall>x. fl (fl x) = fl x) \<and> (\<forall>x y. x \<le> y \<longrightarrow> fl x \<le> fl y)"

text \<open>Arithmetic that never rounds: the rounding of a format in which every result fits.\<close>

definition exact :: "rat \<Rightarrow> rat" where
  "exact x = x"

section \<open>The client-side pricing engine (lib/calculator)\<close>

text \<open>
  \<^verbatim>\<open>CalculationParams\<close>: the fields \<^verbatim>\<open>services\<close>, \<^verbatim>\<open>packageType\<close>, \<^verbatim>\<open>freeZones\<close> and
  \<^verbatim>\<open>serviceMap\<close> are never read by \<^verbatim>\<open>calculatePackagePricing\<close> and are left out.
  \<^verbatim>\<open>packageConfig\<close> is the object whose own entries the engine iterates, and the result's
  \<^verbatim>\<open>packages\<close> is the object it fills under the same keys: both are maps from the package
  type to the entry (a package type is a name such as \<^verbatim>\<open>vip\<close>; the key \<^verbatim>\<open>__proto__\<close>, which an
  assignment does not store as an entry, is not one).
\<close>

record package_config =
  cfg_discount :: rat
  cfg_dynamicDiscount :: "rat option"
  cfg_minCost :: rat
  cfg_minDownPaymentPercent :: rat
  cfg_requiresFullPayment :: bool
  cfg_giftSessions :: "rat option"

record calculation_params =
  cp_downPayment :: rat
  cp_installmentMonths :: rat
  cp_usedCertificate :: bool
  cp_packageConfig :: "string \<rightharpoonup> package_config"
  cp_procedureCount :: "rat option"
  cp_freeZonesValue :: "rat option"
  cp_totalProcedures :: "rat option"
  cp_correctionPercent :: "rat option"

text \<open>
  \<^verbatim>\<open>calculatorSettings\<close> is read with \<^verbatim>\<open>calculatorSettings?.field || default\<close>; a missing
  settings object reads as a record whose fields are all \<open>None\<close>.
\<close>

record calculator_settings =
  cs_minimumDownPayment :: "rat option"
  cs_bulkDiscountThreshold :: "rat option"
  cs_bulkDiscountPercentage :: "rat option"
  cs_certificateDiscountAmount :: "rat option"
  cs_certificateMinCourseAmount :: "rat option"

record applied_discount =
  type :: string
  amount :: rat

record package_data =
  pd_isAvailable :: bool
  pd_unavailableReason :: string
  pd_finalCost :: rat
  pd_totalSavings :: rat
  pd_monthlyPayment :: rat
  pd_appliedDiscounts :: "applied_discount list"

record calculation_result =
  cr_baseCost :: rat
  cr_packages :: "string \<rightharpoonup> package_data"
  cr_totalProcedures :: rat
  cr_freeZonesValue :: rat

subsection \<open>The locals of the loop body, one definition each\<close>

text \<open>
  The loop body also computes \<^verbatim>\<open>minDownPayment\<close> and reads \<^verbatim>\<open>params.freeZonesValue\<close> into a
  local; neither reaches the result of the iteration, and both are left out.
\<close>

definition discountOf :: "package_config \<Rightarrow> rat" where
  "discountOf packageData =
     (case cfg_dynamicDiscount packageData of
        None \<Rightarrow> cfg_discount packageData
      | Some dd \<Rightarrow> if dd = 0 then cfg_discount packageData
                   else max (cfg_discount packageData) dd)"

definition certificateDiscount :: "rat \<Rightarrow> calculation_params \<Rightarrow> calculator_settings \<Rightarrow> rat" where
  "certificateDiscount baseCost params cs =
     (let certificateDiscountAmount = js_or (cs_certificateDiscountAmount cs) 3000;
          certificateMinAmount = js_or (cs_certificateMinCourseAmount cs) 25000
      in if cp_usedCertificate params \<and> baseCost \<ge> certificateMinAmount
         then certificateDiscountAmount else 0)"

definition bulkThreshold :: "calculator_settings \<Rightarrow> rat" where
  "bulkThreshold cs = js_or (cs_bulkDiscountThreshold cs) 15"

definition bulkDiscountPercent :: "(rat \<Rightarrow> rat) \<Rightarrow> calculator_settings \<Rightarrow> rat" where
  "bulkDiscountPercent fl cs = js_or (cs_bulkDiscountPercentage cs) (fl (25 / 1000))"

definition maxSessionCount :: "calculation_params \<Rightarrow> rat" where
  "maxSessionCount params = js_or (cp_procedureCount params) 1"

definition qualifiesForBulkDiscount :: "calculation_params \<Rightarrow> calculator_settings \<Rightarrow> bool" where
  "qualifiesForBulkDiscount params cs \<longleftrightarrow> maxSessionCount params \<ge> bulkThreshold cs"

definition additionalDiscount ::
  "(rat \<Rightarrow> rat) \<Rightarrow> rat \<Rightarrow> calculation_params \<Rightarrow> calculator_settings \<Rightarrow> rat" where
  "additionalDiscount fl baseCost params cs =
     (if qualifiesForBulkDiscount params cs then fl (baseCost * bulkDiscountPercent fl cs) else 0)"

text \<open>
  \<^verbatim>\<open>const { ..., correctionPercent = 0 } = params\<close>: the default applies to a missing
  field only. \<^verbatim>\<open>Math.min(correctionPercent, 10) * baseCost * 0.01\<close> is two products, the
  left one first.
\<close>

definition correctionPercentOf :: "calculation_params \<Rightarrow> rat" where
  "correctionPercentOf params = (case cp_correctionPercent params of None \<Rightarrow> 0 | Some c \<Rightarrow> c)"

definition correctionDiscount :: "(rat \<Rightarrow> rat) \<Rightarrow> rat \<Rightarrow> calculation_params \<Rightarrow> rat" where
  "correctionDiscount fl baseCost params =
     fl (fl (min (correctionPercentOf params) 10 * baseCost) * fl (1 / 100))"

definition packageDiscount :: "(rat \<Rightarrow> rat) \<Rightarrow> rat \<Rightarrow> package_config \<Rightarrow> rat" where
  "packageDiscount fl baseCost packageData = fl (baseCost * discountOf packageData)"

definition originalCostPerProcedure :: "(rat \<Rightarrow> rat) \<Rightarrow> rat \<Rightarrow> calculation_params \<Rightarrow> rat" where
  "originalCostPerProcedure fl baseCost params =
     (if maxSessionCount params > 0 then fl (baseCost / maxSessionCount params) else 0)"

definition giftSessionValue ::
  "(rat \<Rightarrow> rat) \<Rightarrow> rat \<Rightarrow> calculation_params \<Rightarrow> package_config \<Rightarrow> rat" where
  "giftSessionValue fl baseCost params packageData =
     fl (originalCostPerProcedure fl baseCost params * js_or (cfg_giftSessions packageData) 0)"

text \<open>
  \<^verbatim>\<open>packageDiscount + certificateDiscount + additionalDiscount + correctionDiscount\<close>: three
  sums, from the left.
\<close>

definition actualDiscounts ::
  "(rat \<Rightarrow> rat) \<Rightarrow> rat \<Rightarrow> calculation_params \<Rightarrow> calculator_settings \<Rightarrow> package_config \<Rightarrow> rat" where
  "actualDiscounts fl baseCost params cs packageData =
     fl (fl (fl (packageDiscount fl baseCost packageData + certificateDiscount baseCost params cs)
               + additionalDiscount fl baseCost params cs)
           + correctionDiscount fl baseCost params)"

definition monthlyPaymentOf ::
  "(rat \<Rightarrow> rat) \<Rightarrow> rat \<Rightarrow> calculation_params \<Rightarrow> package_config \<Rightarrow> rat" where
  "monthlyPaymentOf fl finalCost params packageData =
     (let remainingAmount = fl (finalCost - cp_downPayment params)
      in if cp_installmentMonths params > 0 \<and> \<not> cfg_requiresFullPayment packageData
         then fl (remainingAmount / cp_installmentMonths params) else 0)"

text \<open>
  The text of \<^verbatim>\<open>unavailableReason\<close> is a template literal with Cyrillic text and two
  numbers printed by \<^verbatim>\<open>toLocaleString()\<close>. The fixed fragments are kept as their UTF-8
  bytes; the locale-dependent printer is the parameter \<open>toLocaleString\<close>.
\<close>

definition reason_prefix :: string where
  "reason_prefix = [CHR 0xD0, CHR 0x9D, CHR 0xD0, CHR 0xB5, CHR 0x20, CHR 0xD1, CHR 0x85,
     CHR 0xD0, CHR 0xB2, CHR 0xD0, CHR 0xB0, CHR 0xD1, CHR 0x82, CHR 0xD0, CHR 0xB0, CHR 0xD0,
     CHR 0xB5, CHR 0xD1, CHR 0x82, CHR 0x20]"

definition reason_middle :: string where
  "reason_middle = [CHR 0x20, CHR 0xE2, CHR 0x82, CHR 0xBD, CHR 0x20, CHR 0x28, CHR 0xD0,
     CHR 0xBC, CHR 0xD0, CHR 0xB8, CHR 0xD0, CHR 0xBD, CHR 0xD0, CHR 0xB8, CHR 0xD0, CHR 0xBC,
     CHR 0xD1, CHR 0x83, CHR 0xD0, CHR 0xBC, CHR 0x3A, CHR 0x20]"

definition reason_suffix :: string where
  "reason_suffix = [CHR 0x20, CHR 0xE2, CHR 0x82, CHR 0xBD, CHR 0x29]"

definition unavailableReasonOf ::
  "(rat \<Rightarrow> rat) \<Rightarrow> (rat \<Rightarrow> string) \<Rightarrow> rat \<Rightarrow> package_config \<Rightarrow> string" where
  "unavailableReasonOf fl toLocaleString baseCost packageData =
     (let isAvailable = baseCost \<ge> cfg_minCost packageData;
          shortage = fl (cfg_minCost packageData - baseCost)
      in if \<not> isAvailable
         then reason_prefix @ toLocaleString shortage @ reason_middle
                @ toLocaleString (cfg_minCost packageData) @ reason_suffix
         else [])"

definition appliedDiscountsOf ::
  "(rat \<Rightarrow> rat) \<Rightarrow> rat \<Rightarrow> calculation_params \<Rightarrow> calculator_settings \<Rightarrow> package_config
     \<Rightarrow> applied_discount list" where
  "appliedDiscountsOf fl baseCost params cs packageData =
     [\<lparr>type = ''package'', amount = packageDiscount fl baseCost packageData\<rparr>]
     @ (if qualifiesForBulkDiscount params cs \<and> additionalDiscount fl baseCost params cs > 0
        then [\<lparr>type = ''bulk'', amount = additionalDiscount fl baseCost params cs\<rparr>] else [])
     @ (if certificateDiscount baseCost params cs > 0
        then [\<lparr>type = ''certificate'', amount = certificateDiscount baseCost params cs\<rparr>] else [])
     @ (if correctionDiscount fl baseCost params > 0
        then [\<lparr>type = ''correction'', amount = correctionDiscount fl baseCost params\<rparr>] else [])
     @ (if giftSessionValue fl baseCost params packageData > 0
        then [\<lparr>type = ''gift_sessions'', amount = giftSessionValue fl baseCost params packageData\<rparr>]
        else [])"

subsection \<open>One iteration of the loop, and the whole function\<close>

definition pricePackage ::
  "(rat \<Rightarrow> rat) \<Rightarrow> (rat \<Rightarrow> string) \<Rightarrow> rat \<Rightarrow> calculation_params \<Rightarrow> calculator_settings
     \<Rightarrow> package_config \<Rightarrow> package_data" where
  "pricePackage fl toLocaleString baseCost params cs packageData =
     (let totalSavings = actualDiscounts fl baseCost params cs packageData;
          finalCost = fl (baseCost - actualDiscounts fl baseCost params cs packageData);
          monthlyPayment = monthlyPaymentOf fl finalCost params packageData;
          isAvailable = baseCost \<ge> cfg_minCost packageData
      in \<lparr>pd_isAvailable = isAvailable,
          pd_unavailableReason = unavailableReasonOf fl toLocaleString baseCost packageData,
          pd_finalCost = finalCost,
          pd_totalSavings = totalSavings,
          pd_monthlyPayment = (if isAvailable then monthlyPayment else 0),
          pd_appliedDiscounts = appliedDiscountsOf fl baseCost params cs packageData\<rparr>)"

definition calculatePackagePricing ::
  "(rat \<Rightarrow> rat) \<Rightarrow> (rat \<Rightarrow> string) \<Rightarrow> rat \<Rightarrow> calculation_params \<Rightarrow> calculator_settings
     \<Rightarrow> calculation_result" where
  "calculatePackagePricing fl toLocaleString baseCost params cs =
     \<lparr>cr_baseCost = baseCost,
      cr_packages = (\<lambda>packageType.
                       map_option (pricePackage fl toLocaleString baseCost params cs)
                         (cp_packageConfig params packageType)),
      cr_totalProcedures = js_or (cp_totalProcedures params) 0,
      cr_freeZonesValue = js_or (cp_freeZonesValue params) 0\<rparr>"




section \<open>The server-side copy of the pricing function (server routes)\<close>

text \<open>
  A row of the \<^verbatim>\<open>packages\<close> table. Its decimal columns arrive as text and are read with
  \<^verbatim>\<open>parseFloat\<close>; the model holds the double that \<^verbatim>\<open>parseFloat\<close> yields. The same rows are the
  \<^verbatim>\<open>Package\<close> values of the client hook.
\<close>

record package =
  pkg_type :: string
  pkg_discount :: rat
  pkg_minCost :: rat
  pkg_minDownPaymentPercent :: rat
  pkg_requiresFullPayment :: bool
  pkg_giftSessions :: "rat option"

record calculation_service =
  svc_id :: nat
  svc_quantity :: rat

record free_zone =
  fz_serviceId :: nat
  fz_pricePerProcedure :: rat
  fz_quantity :: rat

text \<open>The fields of the \<^verbatim>\<open>calculation\<close> argument that the server function destructures and reads.\<close>

record server_calculation =
  sc_services :: "calculation_service list"
  sc_downPayment :: rat
  sc_installmentMonths :: "rat option"
  sc_usedCertificate :: bool
  sc_freeZones :: "free_zone list"

text \<open>\<^verbatim>\<open>services.reduce((sum, service) => sum + service.quantity, 0)\<close>\<close>

definition server_totalProcedures :: "(rat \<Rightarrow> rat) \<Rightarrow> server_calculation \<Rightarrow> rat" where
  "server_totalProcedures fl calculation =
     fold (\<lambda>service sum. fl (sum + svc_quantity service)) (sc_services calculation) 0"

text \<open>\<^verbatim>\<open>packages.forEach(pkg => packageMap[pkg.type] = ...)\<close>: a later row replaces an earlier one.\<close>

definition packageMap :: "package list \<Rightarrow> (string \<rightharpoonup> package)" where
  "packageMap packages = fold (\<lambda>pkg m. m(pkg_type pkg \<mapsto> pkg)) packages Map.empty"

text \<open>
  \<^verbatim>\<open>packageDiscounts\<close> has the three keys \<^verbatim>\<open>vip\<close>, \<^verbatim>\<open>standard\<close> and \<^verbatim>\<open>economy\<close>, each with
  \<^verbatim>\<open>packageMap.key?.discount || 0\<close>.
\<close>

definition packageDiscounts :: "package list \<Rightarrow> (string \<rightharpoonup> rat)" where
  "packageDiscounts packages =
     (\<lambda>k. if k \<in> {''vip'', ''standard'', ''economy''}
          then Some (case packageMap packages k of None \<Rightarrow> 0 | Some p \<Rightarrow> pkg_discount p)
          else None)"

text \<open>\<^verbatim>\<open>let additionalDiscount = 0; if (totalProcedures >= 15) additionalDiscount += 0.025;\<close>\<close>

definition server_additionalDiscount :: "(rat \<Rightarrow> rat) \<Rightarrow> server_calculation \<Rightarrow> rat" where
  "server_additionalDiscount fl calculation =
     (if server_totalProcedures fl calculation \<ge> 15 then fl (0 + fl (25 / 1000)) else 0)"

definition server_certificateDiscount :: "rat \<Rightarrow> server_calculation \<Rightarrow> rat" where
  "server_certificateDiscount baseCost calculation =
     (if sc_usedCertificate calculation \<and> baseCost \<ge> 25000 then 3000 else 0)"

definition server_finalDiscount ::
  "(rat \<Rightarrow> rat) \<Rightarrow> server_calculation \<Rightarrow> string \<Rightarrow> rat \<Rightarrow> rat" where
  "server_finalDiscount fl calculation pkg discount =
     (let finalDiscount = fl (discount + server_additionalDiscount fl calculation)
      in if pkg = ''economy'' \<and> sc_downPayment calculation > 10000
         then max finalDiscount (fl (30 / 100)) else finalDiscount)"

text \<open>\<^verbatim>\<open>freeZones.reduce((sum, zone) => sum + (zone.pricePerProcedure * zone.quantity), 0)\<close>\<close>

definition server_freeZonesValue :: "(rat \<Rightarrow> rat) \<Rightarrow> server_calculation \<Rightarrow> rat" where
  "server_freeZonesValue fl calculation =
     fold (\<lambda>zone sum. fl (sum + fl (fz_pricePerProcedure zone * fz_quantity zone)))
       (sc_freeZones calculation) 0"

definition not_found_text :: string where
  "not_found_text = [CHR 0xD0, CHR 0x9F, CHR 0xD0, CHR 0xB0, CHR 0xD0, CHR 0xBA, CHR 0xD0,
     CHR 0xB5, CHR 0xD1, CHR 0x82, CHR 0x20, CHR 0xD0, CHR 0xBD, CHR 0xD0, CHR 0xB5, CHR 0x20,
     CHR 0xD0, CHR 0xBD, CHR 0xD0, CHR 0xB0, CHR 0xD0, CHR 0xB9, CHR 0xD0, CHR 0xB4, CHR 0xD0,
     CHR 0xB5, CHR 0xD0, CHR 0xBD]"

definition min_cost_text :: string where
  "min_cost_text = [CHR 0xD0, CHR 0x9C, CHR 0xD0, CHR 0xB8, CHR 0xD0, CHR 0xBD, CHR 0xD0,
     CHR 0xB8, CHR 0xD0, CHR 0xBC, CHR 0xD0, CHR 0xB0, CHR 0xD0, CHR 0xBB, CHR 0xD1, CHR 0x8C,
     CHR 0xD0, CHR 0xBD, CHR 0xD0, CHR 0xB0, CHR 0xD1, CHR 0x8F, CHR 0x20, CHR 0xD1, CHR 0x81,
     CHR 0xD1, CHR 0x82, CHR 0xD0, CHR 0xBE, CHR 0xD0, CHR 0xB8, CHR 0xD0, CHR 0xBC, CHR 0xD0,
     CHR 0xBE, CHR 0xD1, CHR 0x81, CHR 0xD1, CHR 0x82, CHR 0xD1, CHR 0x8C, CHR 0x20, CHR 0xD0,
     CHR 0xBA, CHR 0xD1, CHR 0x83, CHR 0xD1, CHR 0x80, CHR 0xD1, CHR 0x81, CHR 0xD0, CHR 0xB0,
     CHR 0x20]"

definition rouble_text :: string where
  "rouble_text = [CHR 0x20, CHR 0xE2, CHR 0x82, CHR 0xBD]"

definition server_availability ::
  "(rat \<Rightarrow> string) \<Rightarrow> rat \<Rightarrow> package list \<Rightarrow> string \<Rightarrow> bool \<times> string" where
  "server_availability toLocaleString baseCost packages pkg =
     (case packageMap packages pkg of
        None \<Rightarrow> (False, not_found_text)
      | Some pkgConfig \<Rightarrow>
          if baseCost < pkg_minCost pkgConfig
          then (False, min_cost_text @ toLocaleString (pkg_minCost pkgConfig) @ rouble_text)
          else (True, []))"

text \<open>
  \<^verbatim>\<open>baseCost - discountAmount - certificateDiscount\<close> is two differences from the left,
  \<^verbatim>\<open>discountAmount + certificateDiscount + freeZonesValue\<close> two sums from the left.
\<close>

definition server_pricePackage ::
  "(rat \<Rightarrow> rat) \<Rightarrow> (rat \<Rightarrow> string) \<Rightarrow> rat \<Rightarrow> server_calculation \<Rightarrow> package list \<Rightarrow> string \<Rightarrow> rat
     \<Rightarrow> package_data" where
  "server_pricePackage fl toLocaleString baseCost calculation packages pkg discount =
     (let finalDiscount = server_finalDiscount fl calculation pkg discount;
          discountAmount = fl (baseCost * finalDiscount);
          certificateDiscount = server_certificateDiscount baseCost calculation;
          finalCost = fl (fl (baseCost - discountAmount) - certificateDiscount);
          totalSavings = fl (fl (discountAmount + certificateDiscount)
                               + server_freeZonesValue fl calculation);
          isAvailable = fst (server_availability toLocaleString baseCost packages pkg);
          unavailableReason = snd (server_availability toLocaleString baseCost packages pkg);
          monthlyPayment =
            (case sc_installmentMonths calculation of
               None \<Rightarrow> 0
             | Some installmentMonths \<Rightarrow>
                 if isAvailable \<and> installmentMonths > 0 \<and> pkg \<noteq> ''vip''
                 then fl (fl (finalCost - sc_downPayment calculation) / installmentMonths) else 0)
      in \<lparr>pd_isAvailable = isAvailable,
          pd_unavailableReason = unavailableReason,
          pd_finalCost = finalCost,
          pd_totalSavings = totalSavings,
          pd_monthlyPayment = monthlyPayment,
          pd_appliedDiscounts =
            [\<lparr>type = ''package'', amount = discountAmount\<rparr>]
            @ (if server_additionalDiscount fl calculation > 0
               then [\<lparr>type = ''bulk'', amount = fl (baseCost * fl (25 / 1000))\<rparr>] else [])
            @ (if certificateDiscount > 0
               then [\<lparr>type = ''certificate'', amount = certificateDiscount\<rparr>] else [])\<rparr>)"

definition server_calculatePackagePricing ::
  "(rat \<Rightarrow> rat) \<Rightarrow> (rat \<Rightarrow> string) \<Rightarrow> rat \<Rightarrow> server_calculation \<Rightarrow> package list
     \<Rightarrow> calculation_result" where
  "server_calculatePackagePricing fl toLocaleString baseCost calculation packages =
     \<lparr>cr_baseCost = baseCost,
      cr_packages = (\<lambda>pkg.
                       map_option (server_pricePackage fl toLocaleString baseCost calculation packages pkg)
                         (packageDiscounts packages pkg)),
      cr_totalProcedures = server_totalProcedures fl calculation,
      cr_freeZonesValue = server_freeZonesValue fl calculation\<rparr>"

section \<open>The payment schedule of a contract (generatePaymentSchedule)\<close>

text \<open>
  A calendar date as \<^verbatim>\<open>Date\<close> holds it in local time: the year, the month counted from
  \<open>0\<close> (January) and the day of the month. \<^verbatim>\<open>toLocaleDateString('ru-RU')\<close> prints the three
  numbers; the schedule of the model keeps the date itself. The date of today is a
  parameter of the function, a valid calendar date.
\<close>

record date =
  dt_year :: nat
  dt_month :: nat
  dt_day :: nat

definition leapYear :: "nat \<Rightarrow> bool" where
  "leapYear y \<longleftrightarrow> y mod 4 = 0 \<and> (0 < y mod 100 \<or> y mod 400 = 0)"

definition daysInMonth :: "nat \<Rightarrow> nat \<Rightarrow> nat" where
  "daysInMonth y m =
     (if m = 1 then (if leapYear y then 29 else 28)
      else if m = 3 \<or> m = 5 \<or> m = 8 \<or> m = 10 then 30 else 31)"

text \<open>
  \<^verbatim>\<open>Date.prototype.setMonth(m)\<close> keeps the day of the month and sets the month, carrying
  whole years when \<open>m\<close> is 12 or more; the date it denotes is the first of that month plus
  the day of the month less one, so a day that the month does not have runs over into
  the month after it. The day is at most 31 and the shortest month has 28 days, so the
  overrun is at most 3 days and ends in the following month.
\<close>

definition setMonth :: "date \<Rightarrow> nat \<Rightarrow> date" where
  "setMonth d m =
     (let y = dt_year d + m div 12;
          mn = m mod 12;
          len = daysInMonth y mn
      in if dt_day d \<le> len then \<lparr>dt_year = y, dt_month = mn, dt_day = dt_day d\<rparr>
         else if mn = 11 then \<lparr>dt_year = y + 1, dt_month = 0, dt_day = dt_day d - len\<rparr>
         else \<lparr>dt_year = y, dt_month = mn + 1, dt_day = dt_day d - len\<rparr>)"

text \<open>The printer of a number inside the description's template literal is the parameter \<open>str\<close>.\<close>

record schedule_entry =
  se_date :: date
  se_amount :: rat
  se_description :: string

definition down_payment_text :: string where
  "down_payment_text = [CHR 0xD0, CHR 0x9F, CHR 0xD0, CHR 0xB5, CHR 0xD1, CHR 0x80, CHR 0xD0,
     CHR 0xB2, CHR 0xD0, CHR 0xBE, CHR 0xD0, CHR 0xBD, CHR 0xD0, CHR 0xB0, CHR 0xD1, CHR 0x87,
     CHR 0xD0, CHR 0xB0, CHR 0xD0, CHR 0xBB, CHR 0xD1, CHR 0x8C, CHR 0xD0, CHR 0xBD, CHR 0xD1,
     CHR 0x8B, CHR 0xD0, CHR 0xB9, CHR 0x20, CHR 0xD0, CHR 0xB2, CHR 0xD0, CHR 0xB7, CHR 0xD0,
     CHR 0xBD, CHR 0xD0, CHR 0xBE, CHR 0xD1, CHR 0x81]"

definition payment_text :: string where
  "payment_text = [CHR 0xD0, CHR 0x9F, CHR 0xD0, CHR 0xBB, CHR 0xD0, CHR 0xB0, CHR 0xD1,
     CHR 0x82, CHR 0xD0, CHR 0xB5, CHR 0xD0, CHR 0xB6, CHR 0x20]"

definition of_text :: string where
  "of_text = [CHR 0x20, CHR 0xD0, CHR 0xB8, CHR 0xD0, CHR 0xB7, CHR 0x20]"

text \<open>
  \<^verbatim>\<open>const paymentDate = new Date(today); paymentDate.setMonth(paymentDate.getMonth() + i);\<close>
\<close>

definition installmentEntry :: "(rat \<Rightarrow> string) \<Rightarrow> date \<Rightarrow> rat \<Rightarrow> rat \<Rightarrow> nat \<Rightarrow> schedule_entry" where
  "installmentEntry str today monthlyPayment installmentMonths i =
     \<lparr>se_date = setMonth today (dt_month today + i), se_amount = monthlyPayment,
      se_description = payment_text @ str (of_nat i) @ of_text @ str installmentMonths\<rparr>"

text \<open>\<^verbatim>\<open>for (let i = 1; i <= installmentMonths; i++) schedule.push(...)\<close>\<close>

function scheduleLoop ::
  "(rat \<Rightarrow> string) \<Rightarrow> date \<Rightarrow> rat \<Rightarrow> rat \<Rightarrow> nat \<Rightarrow> schedule_entry list \<Rightarrow> schedule_entry list" where
  "scheduleLoop str today monthlyPayment installmentMonths i schedule =
     (if of_nat i \<le> installmentMonths
      then scheduleLoop str today monthlyPayment installmentMonths (Suc i)
             (schedule @ [installmentEntry str today monthlyPayment installmentMonths i])
      else schedule)"
  by pat_completeness auto
termination
proof (relation "measure (\<lambda>(str, today, mp, n, i, sch). Suc (nat \<lfloor>n\<rfloor>) - i)")
  show "wf (measure (\<lambda>(str :: rat \<Rightarrow> string, today :: date, mp :: rat, n :: rat, i :: nat,
                        sch :: schedule_entry list). Suc (nat \<lfloor>n\<rfloor>) - i))"
    by simp
next
  fix str :: "rat \<Rightarrow> string" and today :: date and monthlyPayment installmentMonths :: rat
    and i :: nat and schedule :: "schedule_entry list"
  assume le: "of_nat i \<le> installmentMonths"
  then have "int i \<le> \<lfloor>installmentMonths\<rfloor>"
    by (simp add: le_floor_iff)
  then have "i \<le> nat \<lfloor>installmentMonths\<rfloor>"
    by linarith
  then show "((str, today, monthlyPayment, installmentMonths, Suc i,
               schedule @ [installmentEntry str today monthlyPayment installmentMonths i]),
              (str, today, monthlyPayment, installmentMonths, i, schedule))
             \<in> measure (\<lambda>(str, today, mp, n, i, sch). Suc (nat \<lfloor>n\<rfloor>) - i)"
    by simp
qed

declare scheduleLoop.simps [simp del]

text \<open>\<^verbatim>\<open>if (installmentMonths && installmentMonths > 1)\<close>\<close>

definition generatePaymentSchedule ::
  "(rat \<Rightarrow> rat) \<Rightarrow> (rat \<Rightarrow> string) \<Rightarrow> date \<Rightarrow> rat \<Rightarrow> rat \<Rightarrow> rat option \<Rightarrow> schedule_entry list" where
  "generatePaymentSchedule fl str today downPayment finalCost installmentMonths =
     (let schedule = [\<lparr>se_date = today, se_amount = downPayment,
                       se_description = down_payment_text\<rparr>]
      in case installmentMonths of
           None \<Rightarrow> schedule
         | Some n \<Rightarrow>
             if n \<noteq> 0 \<and> n > 1
             then (let remainingAmount = fl (finalCost - downPayment);
                       monthlyPayment = fl (remainingAmount / n)
                   in scheduleLoop str today monthlyPayment n 1 schedule)
             else schedule)"


section \<open>Selecting a package in the calculator hook (use-calculator)\<close>

text \<open>
  The part of the hook's state that \<^verbatim>\<open>setSelectedPackage\<close> reads and writes. The handler is
  a \<^verbatim>\<open>useCallback\<close> with the dependencies \<^verbatim>\<open>[calculation, packages, calculatorSettings]\<close>:
  it is created anew in the render that follows a change of one of the three, and the
  \<^verbatim>\<open>downPayment\<close> it reads is the one of the render that created it, not the one the state
  holds when it runs. \<open>ss_handlerDownPayment\<close> is that closed-over value.
\<close>

record session_state =
  ss_selectedPackage :: "string option"
  ss_downPayment :: rat
  ss_handlerDownPayment :: rat
  ss_calculation :: "calculation_result option"
  ss_packages :: "package list"
  ss_calculatorSettings :: calculator_settings

text \<open>\<^verbatim>\<open>Math.round\<close> rounds to the nearest integer, a half upwards.\<close>

definition js_round :: "rat \<Rightarrow> rat" where
  "js_round x = of_int \<lfloor>x + 1 / 2\<rfloor>"

definition newDownPaymentOf ::
  "(rat \<Rightarrow> rat) \<Rightarrow> calculator_settings \<Rightarrow> package_data \<Rightarrow> package \<Rightarrow> rat" where
  "newDownPaymentOf fl cs packageData packageConfig =
     (if pkg_requiresFullPayment packageConfig then pd_finalCost packageData
      else (let minPaymentPercent = pkg_minDownPaymentPercent packageConfig;
                minPayment = fl (pd_finalCost packageData * minPaymentPercent);
                globalMin = js_or (cs_minimumDownPayment cs) 5000
            in js_round (max minPayment globalMin)))"

definition setSelectedPackage :: "(rat \<Rightarrow> rat) \<Rightarrow> session_state \<Rightarrow> string option \<Rightarrow> session_state" where
  "setSelectedPackage fl st packageType =
     (let st1 = st\<lparr>ss_selectedPackage := packageType\<rparr>;
          downPayment = ss_handlerDownPayment st
      in case packageType of
           None \<Rightarrow> st1
         | Some t \<Rightarrow>
             if t = [] then st1
             else (case ss_calculation st of
                     None \<Rightarrow> st1
                   | Some calculation \<Rightarrow>
                       if ss_packages st = [] then st1
                       else (case (cr_packages calculation t,
                                   find (\<lambda>p. pkg_type p = t) (ss_packages st)) of
                               (Some packageData, Some packageConfig) \<Rightarrow>
                                 if pd_isAvailable packageData
                                 then (let newDownPayment =
                                             newDownPaymentOf fl (ss_calculatorSettings st)
                                               packageData packageConfig
                                       in if newDownPayment \<noteq> downPayment
                                          then st1\<lparr>ss_downPayment := newDownPayment\<rparr> else st1)
                                 else st1
                             | _ \<Rightarrow> st1)))"

text \<open>
  The two other writers of this state. The hook's \<^verbatim>\<open>setDownPayment\<close> (the amount the user
  enters or drags) stores the value; none of the handler's dependencies changes, so the
  handler stays the one it was. The recalculation, which a timer starts up to 100 ms
  after a change of the inputs, stores a new \<^verbatim>\<open>calculation\<close>; the render that follows
  creates the handler anew, with the \<^verbatim>\<open>downPayment\<close> the state holds then.
\<close>

definition setDownPayment :: "session_state \<Rightarrow> rat \<Rightarrow> session_state" where
  "setDownPayment st v = st\<lparr>ss_downPayment := v\<rparr>"

definition setCalculation :: "session_state \<Rightarrow> calculation_result option \<Rightarrow> session_state" where
  "setCalculation st result =
     st\<lparr>ss_calculation := result, ss_handlerDownPayment := ss_downPayment st\<rparr>"

section \<open>The subscription-type table and the duplicate search (storage)\<close>

text \<open>
  The services of a confirmation request and the links of a stored record are JSON that
  no schema validates: an identifier or a session count is a number or a string, or is
  missing. Numbers are natural numbers here (the identifiers and counts the calculator
  sends are). \<^verbatim>\<open>a || b\<close> yields \<open>b\<close> when \<open>a\<close> is missing, \<open>0\<close> or the empty string. Inside a
  template literal a number prints as its decimal digits, a string as itself and a
  missing value as \<^verbatim>\<open>undefined\<close>.
\<close>

datatype scalar = Num nat | Str string

definition js_oro :: "scalar option \<Rightarrow> scalar option \<Rightarrow> scalar option" where
  "js_oro a b =
     (case a of
        None \<Rightarrow> b
      | Some (Num n) \<Rightarrow> if n = 0 then b else a
      | Some (Str s) \<Rightarrow> if s = [] then b else a)"

definition digit_char :: "nat \<Rightarrow> char" where
  "digit_char d = char_of (48 + d)"

fun show_nat :: "nat \<Rightarrow> string" where
  "show_nat n = (if n < 10 then [digit_char n] else show_nat (n div 10) @ [digit_char (n mod 10)])"

declare show_nat.simps [simp del]

definition js_text :: "scalar option \<Rightarrow> string" where
  "js_text x = (case x of None \<Rightarrow> ''undefined'' | Some (Num n) \<Rightarrow> show_nat n | Some (Str s) \<Rightarrow> s)"

text \<open>\<^verbatim>\<open>Array.prototype.join('|')\<close>\<close>

fun join_bar :: "string list \<Rightarrow> string" where
  "join_bar [] = []"
| "join_bar [x] = x"
| "join_bar (x # y # ys) = x @ ''|'' @ join_bar (y # ys)"

text \<open>
  An element of \<^verbatim>\<open>calculation.services\<close> in a confirmation request. The price fields and
  the titles, which neither the search nor the persisted pricing figures depend on, are
  left out.
\<close>

record service_item =
  si_id :: "scalar option"
  si_serviceId :: "scalar option"
  si_sessionCount :: "scalar option"
  si_count :: "scalar option"
  si_quantity :: "scalar option"

text \<open>
  A link of a \<^verbatim>\<open>balance_container\<close>: \<open>ln_service\<close> is \<^verbatim>\<open>link.service?.id\<close>,
  \<open>ln_service_id\<close> is \<^verbatim>\<open>link.service_id\<close>.
\<close>

record link =
  ln_service :: "scalar option"
  ln_service_id :: "scalar option"
  ln_count :: "scalar option"

text \<open>
  A row of \<^verbatim>\<open>subscription_types\<close>. \<open>sub_cost\<close> is the value the \<^verbatim>\<open>decimal(10, 2)\<close> column
  holds. \<open>sub_balanceContainer\<close> is \<open>None\<close> when the stored JSON has no array under
  \<^verbatim>\<open>links\<close>.
\<close>

record subscription_type =
  sub_id :: nat
  sub_yclientsId :: nat
  sub_title :: string
  sub_cost :: rat
  sub_balanceContainer :: "link list option"

definition service_pair :: "service_item \<Rightarrow> scalar option \<times> scalar option" where
  "service_pair s =
     (js_oro (si_serviceId s) (si_id s),
      js_oro (si_sessionCount s) (js_oro (si_count s) (Some (Num 10))))"

definition link_pair :: "link \<Rightarrow> scalar option \<times> scalar option" where
  "link_pair l = (js_oro (ln_service l) (ln_service_id l), ln_count l)"

definition pair_text :: "scalar option \<times> scalar option \<Rightarrow> string" where
  "pair_text p = js_text (fst p) @ '':'' @ js_text (snd p)"

text \<open>
  \<^verbatim>\<open>.sort()\<close> without a comparator orders strings by their code units; on ASCII text this
  is the lexicographic order on character lists.
\<close>

definition serviceKey :: "service_item list \<Rightarrow> string" where
  "serviceKey services = join_bar (sort (map (\<lambda>s. pair_text (service_pair s)) services))"

definition stServiceKey :: "link list \<Rightarrow> string" where
  "stServiceKey links = join_bar (sort (map (\<lambda>l. pair_text (link_pair l)) links))"

text \<open>
  \<^verbatim>\<open>parseFloat(st.cost.toString()) === cost\<close>: the stored decimal is read as the double
  nearest to it. \<open>parseFloat\<close> is that reading, a parameter of the search.
\<close>

definition subscriptionMatches ::
  "(rat \<Rightarrow> rat) \<Rightarrow> service_item list \<Rightarrow> rat \<Rightarrow> subscription_type \<Rightarrow> bool" where
  "subscriptionMatches parseFloat services cost st =
     (let costMatch = (parseFloat (sub_cost st) = cost)
      in if \<not> costMatch then False
         else (case sub_balanceContainer st of
                 None \<Rightarrow> False
               | Some links \<Rightarrow> stServiceKey links = serviceKey services))"

definition findSubscriptionType ::
  "(rat \<Rightarrow> rat) \<Rightarrow> subscription_type list \<Rightarrow> service_item list \<Rightarrow> rat \<Rightarrow> string
     \<Rightarrow> subscription_type option" where
  "findSubscriptionType parseFloat subscriptionTypes services cost packageType =
     find (subscriptionMatches parseFloat services cost) subscriptionTypes"

text \<open>
  What an exact match means, stated on the data rather than on the key text: the stored
  cost reads as the requested cost, and the links carry the same collection of
  (service, session count) pairs as the request, whatever their order. A value is plain
  when it is a number or missing.
\<close>

definition exactMatch ::
  "(rat \<Rightarrow> rat) \<Rightarrow> service_item list \<Rightarrow> rat \<Rightarrow> subscription_type \<Rightarrow> bool" where
  "exactMatch parseFloat services cost st =
     (parseFloat (sub_cost st) = cost \<and>
      (case sub_balanceContainer st of
         None \<Rightarrow> False
       | Some links \<Rightarrow> mset (map link_pair links) = mset (map service_pair services)))"

definition plain :: "scalar option \<Rightarrow> bool" where
  "plain v = (case v of Some (Str s) \<Rightarrow> False | _ \<Rightarrow> True)"

definition plain_pair :: "scalar option \<times> scalar option \<Rightarrow> bool" where
  "plain_pair p \<longleftrightarrow> plain (fst p) \<and> plain (snd p)"

definition plain_services :: "service_item list \<Rightarrow> bool" where
  "plain_services services \<longleftrightarrow> list_all (\<lambda>s. plain_pair (service_pair s)) services"

definition plain_links :: "link list \<Rightarrow> bool" where
  "plain_links links \<longleftrightarrow> list_all (\<lambda>l. plain_pair (link_pair l)) links"


section \<open>The confirmation route POST /api/subscription\<close>

text \<open>
  The \<^verbatim>\<open>requireAuth\<close> middleware has let the request through (\<open>env_userId\<close> is the user of
  the session). The handler runs inside one \<^verbatim>\<open>try\<close> block: whatever throws ends the
  request with status 500. The database is a record of three tables with their serial
  counters. The outcomes the code does not decide come from an environment: a storage
  call that rejects, the answer of the booking platform, the generated title, the double
  that \<^verbatim>\<open>parseFloat\<close> reads from a decimal text (\<open>env_parseFloat\<close>), and what the database
  makes of a value it is asked to store. The route hands every amount over as
  \<^verbatim>\<open>number.toString()\<close> and the column is \<^verbatim>\<open>decimal(10, 2)\<close>: \<open>env_storeDecimal x\<close> is the
  value the column holds once the text of \<open>x\<close> is stored, \<open>None\<close> when the database
  rejects it (then the call throws). \<open>env_storeInteger\<close> is the same for the \<^verbatim>\<open>integer\<close>
  column of the installment months.
\<close>

datatype step =
  GetClientByPhone | CreateClient | GetYclientsConfig | GetAllServices | GetSubscriptionTypes
  | GetTemplateConfig | GenerateTitle | UpsertSubscriptionType | CreateSale

datatype response = Json_success string nat | Status_400 | Status_500

record client =
  cl_id :: nat
  cl_phone :: string
  cl_email :: "string option"

record yclients_subscription_type =
  yc_id :: nat
  yc_title :: string
  yc_cost :: rat
  yc_balance_container :: "link list option"

text \<open>
  The argument of \<^verbatim>\<open>createSubscriptionType\<close>. \<open>pl_freezeLimit\<close> is \<open>None\<close> when what
  \<^verbatim>\<open>getFreezeLimitForPackage\<close> returns is not a number.
\<close>

record create_payload =
  pl_title :: string
  pl_cost :: rat
  pl_services :: "(scalar option \<times> scalar option) list"
  pl_allowFreeze :: bool
  pl_freezeLimit :: "nat option"
  pl_packageType :: string

text \<open>The \<^verbatim>\<open>calculation\<close> object of the request body, as the client modal builds it.\<close>

record calculation_request =
  rq_services :: "service_item list"
  rq_packageType :: string
  rq_baseCost :: rat
  rq_finalCost :: rat
  rq_totalSavings :: rat
  rq_downPayment :: rat
  rq_installmentMonths :: "rat option"
  rq_monthlyPayment :: "rat option"
  rq_usedCertificate :: bool
  rq_freeZones :: "free_zone list"
  rq_appliedDiscounts :: "applied_discount list"
  rq_manualGiftSessions :: "(string \<times> rat) list option"

record request =
  req_phone :: string
  req_email :: "string option"
  req_calculation :: calculation_request

text \<open>
  A row of \<^verbatim>\<open>sales\<close>: the amounts are the values of its \<^verbatim>\<open>decimal(10, 2)\<close> columns,
  \<open>sale_installmentMonths\<close> the value of its \<^verbatim>\<open>integer\<close> column, \<open>None\<close> for null.
\<close>

record sale =
  sale_id :: nat
  sale_clientId :: nat
  sale_masterId :: nat
  sale_subscriptionTypeId :: nat
  sale_selectedServices :: "service_item list"
  sale_selectedPackage :: string
  sale_baseCost :: rat
  sale_finalCost :: rat
  sale_totalSavings :: rat
  sale_downPayment :: rat
  sale_installmentMonths :: "rat option"
  sale_monthlyPayment :: "rat option"
  sale_appliedDiscounts :: "applied_discount list"
  sale_freeZones :: "free_zone list"
  sale_usedCertificate :: bool
  sale_manualGiftSessions :: "(string \<times> rat) list"

record database =
  db_clients :: "client list"
  db_clientSeq :: nat
  db_subscriptionTypes :: "subscription_type list"
  db_subscriptionTypeSeq :: nat
  db_sales :: "sale list"
  db_saleSeq :: nat

record environment =
  env_userId :: nat
  env_validEmail :: "string \<Rightarrow> bool"
  env_fails :: "step \<Rightarrow> bool"
  env_yclientsConfig :: bool
  env_title :: string
  env_createSubscriptionType :: "create_payload \<Rightarrow> string + yclients_subscription_type"
  env_parseFloat :: "rat \<Rightarrow> rat"
  env_storeDecimal :: "rat \<Rightarrow> rat option"
  env_storeInteger :: "rat \<Rightarrow> rat option"

text \<open>\<^verbatim>\<open>clientSchema.parse\<close>: a phone of at least ten characters, an optional valid email.\<close>

definition clientSchema_parse :: "environment \<Rightarrow> request \<Rightarrow> (string \<times> string option) option" where
  "clientSchema_parse env req =
     (if length (req_phone req) \<ge> 10
         \<and> (case req_email req of None \<Rightarrow> True | Some e \<Rightarrow> env_validEmail env e)
      then Some (req_phone req, req_email req) else None)"

definition getFreezePolicyForPackage :: "string \<Rightarrow> bool" where
  "getFreezePolicyForPackage packageType \<longleftrightarrow> packageType \<noteq> ''none''"

text \<open>
  \<^verbatim>\<open>(limits as any)[packageType] || 0\<close> on an object literal with the keys \<^verbatim>\<open>vip\<close>,
  \<^verbatim>\<open>standard\<close> and \<^verbatim>\<open>economy\<close>: any other name reads as \<open>0\<close>, except the names that every
  object inherits from \<^verbatim>\<open>Object.prototype\<close>, under which the lookup finds a function or an
  object, which is truthy and is returned in place of a number.
\<close>

definition object_prototype_names :: "string list" where
  "object_prototype_names =
     [''constructor'', ''__defineGetter__'', ''__defineSetter__'', ''hasOwnProperty'',
      ''__lookupGetter__'', ''__lookupSetter__'', ''isPrototypeOf'', ''propertyIsEnumerable'',
      ''toString'', ''valueOf'', ''__proto__'', ''toLocaleString'']"

definition getFreezeLimitForPackage :: "string \<Rightarrow> nat option" where
  "getFreezeLimitForPackage packageType =
     (if packageType = ''vip'' then Some 999
      else if packageType = ''standard'' then Some 180
      else if packageType = ''economy'' then Some 90
      else if packageType \<in> set object_prototype_names then None
      else Some 0)"

text \<open>Get or create the client (the first block of the handler).\<close>

definition resolveClient ::
  "environment \<Rightarrow> database \<Rightarrow> string \<Rightarrow> string option \<Rightarrow> (database \<times> response) + (database \<times> client)" where
  "resolveClient env db phone email =
     (if env_fails env GetClientByPhone then Inl (db, Status_500)
      else (case find (\<lambda>c. cl_phone c = phone) (db_clients db) of
              Some client \<Rightarrow> Inr (db, client)
            | None \<Rightarrow>
                if env_fails env CreateClient then Inl (db, Status_500)
                else (let client = \<lparr>cl_id = db_clientSeq db, cl_phone = phone,
                                     cl_email = (case email of None \<Rightarrow> None
                                                 | Some e \<Rightarrow> if e = [] then None else Some e)\<rparr>
                      in Inr (db\<lparr>db_clients := db_clients db @ [client],
                                 db_clientSeq := Suc (db_clientSeq db)\<rparr>, client))))"

text \<open>
  \<^verbatim>\<open>insert ... onConflictDoUpdate({ target: yclientsId })\<close> with
  \<^verbatim>\<open>cost: yclientsSubscriptionType.cost.toString()\<close>: a row with the same platform id is
  rewritten in place, otherwise a row with a fresh serial id is added; the cost the row
  holds is what the decimal column makes of the platform's cost. The result is \<open>None\<close>
  when the database rejects the cost.
\<close>

definition upsertSubscriptionType ::
  "environment \<Rightarrow> database \<Rightarrow> yclients_subscription_type \<Rightarrow> (database \<times> subscription_type) option" where
  "upsertSubscriptionType env db y =
     (case env_storeDecimal env (yc_cost y) of
        None \<Rightarrow> None
      | Some cost \<Rightarrow>
          (case find (\<lambda>st. sub_yclientsId st = yc_id y) (db_subscriptionTypes db) of
             Some old \<Rightarrow>
               (let item = old\<lparr>sub_title := yc_title y, sub_cost := cost,
                               sub_balanceContainer := yc_balance_container y\<rparr>
                in Some (db\<lparr>db_subscriptionTypes :=
                              map (\<lambda>st. if sub_yclientsId st = yc_id y then item else st)
                                (db_subscriptionTypes db)\<rparr>, item))
           | None \<Rightarrow>
               (let item = \<lparr>sub_id = db_subscriptionTypeSeq db, sub_yclientsId = yc_id y,
                            sub_title = yc_title y, sub_cost = cost,
                            sub_balanceContainer = yc_balance_container y\<rparr>
                in Some (db\<lparr>db_subscriptionTypes := db_subscriptionTypes db @ [item],
                             db_subscriptionTypeSeq := Suc (db_subscriptionTypeSeq db)\<rparr>, item))))"

definition servicesForYclients :: "service_item list \<Rightarrow> (scalar option \<times> scalar option) list" where
  "servicesForYclients services =
     map (\<lambda>service. (js_oro (si_id service) (si_serviceId service),
                      js_oro (si_sessionCount service) (js_oro (si_count service) (Some (Num 10)))))
       services"

definition createPayload :: "environment \<Rightarrow> calculation_request \<Rightarrow> create_payload" where
  "createPayload env calculation =
     \<lparr>pl_title = env_title env,
      pl_cost = rq_finalCost calculation,
      pl_services = servicesForYclients (rq_services calculation),
      pl_allowFreeze = getFreezePolicyForPackage (rq_packageType calculation),
      pl_freezeLimit = getFreezeLimitForPackage (rq_packageType calculation),
      pl_packageType = rq_packageType calculation\<rparr>"

text \<open>Find the subscription type, or create it on the platform and store it locally.\<close>

definition resolveSubscriptionType ::
  "environment \<Rightarrow> database \<Rightarrow> calculation_request
     \<Rightarrow> (database \<times> response) + (database \<times> subscription_type)" where
  "resolveSubscriptionType env db calculation =
     (if env_fails env GetSubscriptionTypes then Inl (db, Status_500)
      else (case findSubscriptionType (env_parseFloat env) (db_subscriptionTypes db)
                   (rq_services calculation) (rq_finalCost calculation)
                   (rq_packageType calculation) of
              Some subscriptionType \<Rightarrow> Inr (db, subscriptionType)
            | None \<Rightarrow>
                if env_fails env GetTemplateConfig \<or> env_fails env GenerateTitle
                then Inl (db, Status_500)
                else (case env_createSubscriptionType env (createPayload env calculation) of
                        Inl err \<Rightarrow> Inl (db, Status_500)
                      | Inr yclientsSubscriptionType \<Rightarrow>
                          if env_fails env UpsertSubscriptionType then Inl (db, Status_500)
                          else (case upsertSubscriptionType env db yclientsSubscriptionType of
                                  None \<Rightarrow> Inl (db, Status_500)
                                | Some stored \<Rightarrow> Inr stored))))"

definition enrichedCount :: "service_item \<Rightarrow> scalar option" where
  "enrichedCount service =
     js_oro (si_sessionCount service)
       (js_oro (si_quantity service) (js_oro (si_count service) (Some (Num 1))))"

definition enrichedServices :: "service_item list \<Rightarrow> service_item list" where
  "enrichedServices services =
     map (\<lambda>service. service\<lparr>si_quantity := enrichedCount service,
                             si_sessionCount := enrichedCount service,
                             si_count := enrichedCount service\<rparr>) services"

text \<open>
  The row that \<^verbatim>\<open>storage.createSale\<close> inserts: \<^verbatim>\<open>baseCost: calculation.baseCost.toString()\<close>
  and the like into the decimal columns, \<^verbatim>\<open>calculation.installmentMonths || null\<close> into the
  integer column, \<^verbatim>\<open>calculation.monthlyPayment?.toString() || null\<close> into a decimal column
  that may be null. The result is \<open>None\<close> when the database rejects one of the values.
\<close>

definition saleOf ::
  "environment \<Rightarrow> nat \<Rightarrow> client \<Rightarrow> subscription_type \<Rightarrow> calculation_request \<Rightarrow> sale option" where
  "saleOf env newId client subscriptionType calculation =
     do {
       baseCost \<leftarrow> env_storeDecimal env (rq_baseCost calculation);
       finalCost \<leftarrow> env_storeDecimal env (rq_finalCost calculation);
       totalSavings \<leftarrow> env_storeDecimal env (rq_totalSavings calculation);
       downPayment \<leftarrow> env_storeDecimal env (rq_downPayment calculation);
       installmentMonths \<leftarrow>
         (case rq_installmentMonths calculation of
            None \<Rightarrow> Some None
          | Some n \<Rightarrow> if n = 0 then Some None else map_option Some (env_storeInteger env n));
       monthlyPayment \<leftarrow>
         (case rq_monthlyPayment calculation of
            None \<Rightarrow> Some None
          | Some m \<Rightarrow> map_option Some (env_storeDecimal env m));
       Some \<lparr>sale_id = newId,
             sale_clientId = cl_id client,
             sale_masterId = env_userId env,
             sale_subscriptionTypeId = sub_id subscriptionType,
             sale_selectedServices = enrichedServices (rq_services calculation),
             sale_selectedPackage = rq_packageType calculation,
             sale_baseCost = baseCost,
             sale_finalCost = finalCost,
             sale_totalSavings = totalSavings,
             sale_downPayment = downPayment,
             sale_installmentMonths = installmentMonths,
             sale_monthlyPayment = monthlyPayment,
             sale_appliedDiscounts = rq_appliedDiscounts calculation,
             sale_freeZones = rq_freeZones calculation,
             sale_usedCertificate = rq_usedCertificate calculation,
             sale_manualGiftSessions =
               (case rq_manualGiftSessions calculation of None \<Rightarrow> [] | Some m \<Rightarrow> m)\<rparr>
     }"

definition createSale ::
  "environment \<Rightarrow> database \<Rightarrow> client \<Rightarrow> subscription_type \<Rightarrow> calculation_request
     \<Rightarrow> database \<times> response" where
  "createSale env db client subscriptionType calculation =
     (if env_fails env CreateSale then (db, Status_500)
      else (case saleOf env (db_saleSeq db) client subscriptionType calculation of
              None \<Rightarrow> (db, Status_500)
            | Some sale \<Rightarrow>
                (db\<lparr>db_sales := db_sales db @ [sale], db_saleSeq := Suc (db_saleSeq db)\<rparr>,
                 Json_success (sub_title subscriptionType) (sale_id sale))))"

definition subscription_route :: "environment \<Rightarrow> database \<Rightarrow> request \<Rightarrow> database \<times> response" where
  "subscription_route env db req =
     (case clientSchema_parse env req of
        None \<Rightarrow> (db, Status_500)
      | Some (phone, email) \<Rightarrow>
          (case resolveClient env db phone email of
             Inl failed \<Rightarrow> failed
           | Inr (db1, client) \<Rightarrow>
               if env_fails env GetYclientsConfig then (db1, Status_500)
               else if \<not> env_yclientsConfig env then (db1, Status_400)
               else if env_fails env GetAllServices then (db1, Status_500)
               else (case resolveSubscriptionType env db1 (req_calculation req) of
                       Inl failed \<Rightarrow> failed
                     | Inr (db2, subscriptionType) \<Rightarrow>
                         createSale env db2 client subscriptionType (req_calculation req))))"


section \<open>How the hook feeds the two pricing functions\<close>

text \<open>
  The selected services of the calculator: \<^verbatim>\<open>sessionCount || 10\<close> is the session count of
  a service; the selector reports the largest one (\<open>10\<close> for an empty cart) as the
  procedure count; the \<^verbatim>\<open>services\<close> handed to a pricing function carry
  \<^verbatim>\<open>quantity * (sessionCount || 10)\<close> as their quantity.
\<close>

record selected_service =
  sel_yclientsId :: nat
  sel_quantity :: rat
  sel_sessionCount :: "rat option"

definition sessionCountOf :: "selected_service \<Rightarrow> rat" where
  "sessionCountOf s = js_or (sel_sessionCount s) 10"

definition maxSessionCountOf :: "selected_service list \<Rightarrow> rat" where
  "maxSessionCountOf selectedServices =
     (case map sessionCountOf selectedServices of [] \<Rightarrow> 10 | x # xs \<Rightarrow> fold max xs x)"

definition calculationServices :: "(rat \<Rightarrow> rat) \<Rightarrow> selected_service list \<Rightarrow> calculation_service list" where
  "calculationServices fl servicesData =
     map (\<lambda>service. \<lparr>svc_id = sel_yclientsId service,
                      svc_quantity = fl (sel_quantity service * sessionCountOf service)\<rparr>)
       servicesData"

section \<open>Sample inputs\<close>

text \<open>
  A printer for whole amounts, used where a concrete \<^verbatim>\<open>toLocaleString\<close> is needed to
  evaluate the functions, and the inputs of the specification's round-trip scenario:
  one service of 2000 with ten sessions (base cost 20000) and the three packages, as rows
  of the \<^verbatim>\<open>packages\<close> table and as the configurations the hook builds from them. The samples
  are evaluated with the arithmetic \<^const>\<open>exact\<close>.
\<close>

definition show_rat :: "rat \<Rightarrow> string" where
  "show_rat x = (if x < 0 then ''-'' else []) @ show_nat (nat \<lfloor>\<bar>x\<bar>\<rfloor>)"

definition scenario_settings :: calculator_settings where
  "scenario_settings =
     \<lparr>cs_minimumDownPayment = Some 5000, cs_bulkDiscountThreshold = Some 15,
      cs_bulkDiscountPercentage = Some (25 / 1000), cs_certificateDiscountAmount = Some 3000,
      cs_certificateMinCourseAmount = Some 25000\<rparr>"

definition scenario_vip :: package where
  "scenario_vip =
     \<lparr>pkg_type = ''vip'', pkg_discount = 30 / 100, pkg_minCost = 15000,
      pkg_minDownPaymentPercent = 1, pkg_requiresFullPayment = True, pkg_giftSessions = None\<rparr>"

definition scenario_standard :: package where
  "scenario_standard =
     \<lparr>pkg_type = ''standard'', pkg_discount = 25 / 100, pkg_minCost = 12000,
      pkg_minDownPaymentPercent = 50 / 100, pkg_requiresFullPayment = False, pkg_giftSessions = None\<rparr>"

definition scenario_economy :: package where
  "scenario_economy =
     \<lparr>pkg_type = ''economy'', pkg_discount = 20 / 100, pkg_minCost = 10000,
      pkg_minDownPaymentPercent = 1 / 100, pkg_requiresFullPayment = False, pkg_giftSessions = None\<rparr>"

definition scenario_packages :: "package list" where
  "scenario_packages = [scenario_vip, scenario_standard, scenario_economy]"

definition vip_config :: package_config where
  "vip_config =
     \<lparr>cfg_discount = 30 / 100, cfg_dynamicDiscount = None, cfg_minCost = 15000,
      cfg_minDownPaymentPercent = 1, cfg_requiresFullPayment = True, cfg_giftSessions = Some 0\<rparr>"

definition standard_config :: package_config where
  "standard_config =
     \<lparr>cfg_discount = 25 / 100, cfg_dynamicDiscount = None, cfg_minCost = 12000,
      cfg_minDownPaymentPercent = 50 / 100, cfg_requiresFullPayment = False,
      cfg_giftSessions = Some 0\<rparr>"

definition economy_config :: package_config where
  "economy_config =
     \<lparr>cfg_discount = 20 / 100, cfg_dynamicDiscount = None, cfg_minCost = 10000,
      cfg_minDownPaymentPercent = 1 / 100, cfg_requiresFullPayment = False,
      cfg_giftSessions = Some 0\<rparr>"

definition scenario_packageConfig :: "string \<rightharpoonup> package_config" where
  "scenario_packageConfig =
     [''vip'' \<mapsto> vip_config, ''standard'' \<mapsto> standard_config, ''economy'' \<mapsto> economy_config]"

definition scenario_params :: calculation_params where
  "scenario_params =
     \<lparr>cp_downPayment = 5000, cp_installmentMonths = 2, cp_usedCertificate = False,
      cp_packageConfig = scenario_packageConfig,
      cp_procedureCount = Some 10, cp_freeZonesValue = Some 0, cp_totalProcedures = Some 10,
      cp_correctionPercent = Some 0\<rparr>"

definition scenario_calculation :: server_calculation where
  "scenario_calculation =
     \<lparr>sc_services = [\<lparr>svc_id = 1, svc_quantity = 10\<rparr>], sc_downPayment = 5000,
      sc_installmentMonths = Some 2, sc_usedCertificate = False, sc_freeZones = []\<rparr>"

text \<open>Two services of eight sessions each, one unit of each.\<close>

definition eight_sessions_twice :: "selected_service list" where
  "eight_sessions_twice =
     [\<lparr>sel_yclientsId = 1, sel_quantity = 1, sel_sessionCount = Some 8\<rparr>,
      \<lparr>sel_yclientsId = 2, sel_quantity = 1, sel_sessionCount = Some 8\<rparr>]"

text \<open>
  A session of the calculator holding the scenario's calculation, nothing selected yet,
  in a settled render: the handler closes over the down payment the state holds.
\<close>

definition scenario_state :: session_state where
  "scenario_state =
     \<lparr>ss_selectedPackage = None, ss_downPayment = 5000, ss_handlerDownPayment = 5000,
      ss_calculation =
        Some (calculatePackagePricing exact show_rat 20000 scenario_params scenario_settings),
      ss_packages = scenario_packages, ss_calculatorSettings = scenario_settings\<rparr>"

text \<open>
  The same session after the user has entered a down payment of 14000 and the
  recalculation has run, and then the state in which the user has moved the down
  payment on to 9000 and the recalculation has not run yet.
\<close>

definition settled_state :: session_state where
  "settled_state =
     setCalculation (setDownPayment scenario_state 14000)
       (Some (calculatePackagePricing exact show_rat 20000
                (scenario_params\<lparr>cp_downPayment := 14000\<rparr>) scenario_settings))"

definition unsettled_state :: session_state where
  "unsettled_state = setDownPayment settled_state 9000"

text \<open>The last day of January 2025, and the middle of that month.\<close>

definition january_31 :: date where
  "january_31 = \<lparr>dt_year = 2025, dt_month = 0, dt_day = 31\<rparr>"

definition january_15 :: date where
  "january_15 = \<lparr>dt_year = 2025, dt_month = 0, dt_day = 15\<rparr>"

text \<open>
  A confirmation request for the scenario (two services, of ten and of eight sessions,
  priced at 16000 in the economy package); a database whose decimal columns round to two
  decimals, a half away from zero, and hold less than ten digits, and whose integer
  column takes whole numbers; an environment in which nothing fails, a decimal text is
  read as the number it denotes, and the booking platform answers a creation request
  with a record under the given id that repeats the requested cost and services;
  variants in which the table lookup throws or the platform is down; an empty database;
  and the subscription type the first confirmation stores.
\<close>

definition scenario_services :: "service_item list" where
  "scenario_services =
     [\<lparr>si_id = Some (Num 1), si_serviceId = Some (Num 1), si_sessionCount = Some (Num 10),
       si_count = Some (Num 10), si_quantity = Some (Num 1)\<rparr>,
      \<lparr>si_id = Some (Num 2), si_serviceId = Some (Num 2), si_sessionCount = Some (Num 8),
       si_count = Some (Num 8), si_quantity = Some (Num 1)\<rparr>]"

definition scenario_request_calculation :: calculation_request where
  "scenario_request_calculation =
     \<lparr>rq_services = scenario_services, rq_packageType = ''economy'', rq_baseCost = 20000,
      rq_finalCost = 16000, rq_totalSavings = 4000, rq_downPayment = 5000,
      rq_installmentMonths = Some 2, rq_monthlyPayment = Some 5500, rq_usedCertificate = False,
      rq_freeZones = [], rq_appliedDiscounts = [\<lparr>type = ''package'', amount = 4000\<rparr>],
      rq_manualGiftSessions = None\<rparr>"

definition scenario_request :: request where
  "scenario_request =
     \<lparr>req_phone = ''79001234567'', req_email = None, req_calculation = scenario_request_calculation\<rparr>"

definition two_decimals :: "rat \<Rightarrow> rat option" where
  "two_decimals x =
     (let cents = (if 0 \<le> x then \<lfloor>x * 100 + 1 / 2\<rfloor> else - \<lfloor>- x * 100 + 1 / 2\<rfloor>);
          q = of_int cents / 100
      in if \<bar>q\<bar> < 100000000 then Some q else None)"

definition whole_number :: "rat \<Rightarrow> rat option" where
  "whole_number x = (if of_int \<lfloor>x\<rfloor> = x \<and> \<bar>x\<bar> < 2147483648 then Some x else None)"

definition platform_echo :: "nat \<Rightarrow> create_payload \<Rightarrow> string + yclients_subscription_type" where
  "platform_echo newId payload =
     Inr \<lparr>yc_id = newId, yc_title = pl_title payload, yc_cost = pl_cost payload,
          yc_balance_container =
            Some (map (\<lambda>(serviceId, count).
                         \<lparr>ln_service = serviceId, ln_service_id = None, ln_count = count\<rparr>)
                    (pl_services payload))\<rparr>"

definition platform_down :: "create_payload \<Rightarrow> string + yclients_subscription_type" where
  "platform_down payload = Inl ''Yclients API error''"

definition no_step_fails :: "step \<Rightarrow> bool" where
  "no_step_fails s \<longleftrightarrow> False"

definition any_email :: "string \<Rightarrow> bool" where
  "any_email e \<longleftrightarrow> True"

definition scenario_environment :: environment where
  "scenario_environment =
     \<lparr>env_userId = 7, env_validEmail = any_email, env_fails = no_step_fails,
      env_yclientsConfig = True, env_title = ''Course 1.001'',
      env_createSubscriptionType = platform_echo 501,
      env_parseFloat = exact, env_storeDecimal = two_decimals, env_storeInteger = whole_number\<rparr>"

definition empty_database :: database where
  "empty_database =
     \<lparr>db_clients = [], db_clientSeq = 1, db_subscriptionTypes = [], db_subscriptionTypeSeq = 1,
      db_sales = [], db_saleSeq = 1\<rparr>"

definition lookup_step_fails :: "step \<Rightarrow> bool" where
  "lookup_step_fails s \<longleftrightarrow> s = GetSubscriptionTypes"

definition scenario_subscription_type :: subscription_type where
  "scenario_subscription_type =
     \<lparr>sub_id = 1, sub_yclientsId = 501, sub_title = ''Course 1.001'', sub_cost = 16000,
      sub_balanceContainer =
        Some [\<lparr>ln_service = Some (Num 1), ln_service_id = None, ln_count = Some (Num 10)\<rparr>,
              \<lparr>ln_service = Some (Num 2), ln_service_id = None, ln_count = Some (Num 8)\<rparr>]\<rparr>"

text \<open>
  A final cost as the client engine computes it in doubles: one service of 1002 with
  sixteen sessions (base cost 16032) in a package with a discount of \<^verbatim>\<open>0.3\<close>. The discount
  \<^verbatim>\<open>16032 * 0.3\<close> is the double \<^verbatim>\<open>4809.599999999999\<close> and the final cost
  \<^verbatim>\<open>16032 - 4809.599999999999\<close> is the double \<^verbatim>\<open>11222.400000000001\<close>, the fractions below; the
  double nearest to 11222.4 is the next one down. The request that confirms this course
  at full payment, and the environment of a second confirmation, in which the platform
  numbers its next record 502.
\<close>

definition drifted_discount :: rat where
  "drifted_discount = 5288211124951449 / 1099511627776"

definition drifted_cost :: rat where
  "drifted_cost = 1542394911444173 / 137438953472"

definition drifted_request :: request where
  "drifted_request =
     \<lparr>req_phone = ''79001234567'', req_email = None,
      req_calculation =
        \<lparr>rq_services =
           [\<lparr>si_id = Some (Num 1), si_serviceId = Some (Num 1), si_sessionCount = Some (Num 16),
             si_count = Some (Num 16), si_quantity = Some (Num 1)\<rparr>],
         rq_packageType = ''vip'', rq_baseCost = 16032, rq_finalCost = drifted_cost,
         rq_totalSavings = drifted_discount, rq_downPayment = drifted_cost,
         rq_installmentMonths = None, rq_monthlyPayment = Some 0, rq_usedCertificate = False,
         rq_freeZones = [], rq_appliedDiscounts = [\<lparr>type = ''package'', amount = drifted_discount\<rparr>],
         rq_manualGiftSessions = None\<rparr>\<rparr>"

definition second_environment :: environment where
  "second_environment =
     scenario_environment\<lparr>env_title := ''Course 1.002'',
                           env_createSubscriptionType := platform_echo 502\<rparr>"

text \<open>
  The reading of a stored decimal as the double nearest to it, on the sample values: the
  whole amounts are doubles themselves, and 11222.4 is not. And an environment whose
  columns hold every value as it is given.
\<close>

definition read_decimal :: "rat \<Rightarrow> rat" where
  "read_decimal x = (if x = 56112 / 5 then 6169579645776691 / 549755813888 else x)"


section \<open>Properties of the client-side pricing engine\<close>

subsection \<open>Arithmetic\<close>

lemma rounding_exact: "rounding exact"
  by (simp add: rounding_def exact_def)

lemma exact_all: "exact x = x"
  by (simp add: exact_def)

lemma rounding_zero: "rounding fl \<Longrightarrow> fl 0 = 0"
  by (simp add: rounding_def)

lemma rounding_idem: "rounding fl \<Longrightarrow> fl (fl x) = fl x"
  by (simp add: rounding_def)



subsection \<open>The fields of one priced package\<close>

lemma pricePackage_isAvailable:
  "pd_isAvailable (pricePackage fl f baseCost params cs c) \<longleftrightarrow> baseCost \<ge> cfg_minCost c"
  by (simp add: pricePackage_def Let_def)

lemma pricePackage_unavailableReason:
  "pd_unavailableReason (pricePackage fl f baseCost params cs c) = unavailableReasonOf fl f baseCost c"
  by (simp add: pricePackage_def Let_def)

lemma pricePackage_finalCost:
  "pd_finalCost (pricePackage fl f baseCost params cs c)
     = fl (baseCost - actualDiscounts fl baseCost params cs c)"
  by (simp add: pricePackage_def Let_def)

lemma pricePackage_totalSavings:
  "pd_totalSavings (pricePackage fl f baseCost params cs c) = actualDiscounts fl baseCost params cs c"
  by (simp add: pricePackage_def Let_def)

lemma pricePackage_monthlyPayment:
  "pd_monthlyPayment (pricePackage fl f baseCost params cs c) =
     (if baseCost \<ge> cfg_minCost c
      then monthlyPaymentOf fl (fl (baseCost - actualDiscounts fl baseCost params cs c)) params c
      else 0)"
  by (simp add: pricePackage_def Let_def)

lemma pricePackage_appliedDiscounts:
  "pd_appliedDiscounts (pricePackage fl f baseCost params cs c) = appliedDiscountsOf fl baseCost params cs c"
  by (simp add: pricePackage_def Let_def)

lemmas pricePackage_fields = pricePackage_isAvailable pricePackage_unavailableReason
  pricePackage_finalCost pricePackage_totalSavings pricePackage_monthlyPayment
  pricePackage_appliedDiscounts

lemmas client_eval = actualDiscounts_def packageDiscount_def discountOf_def
  certificateDiscount_def additionalDiscount_def correctionDiscount_def correctionPercentOf_def
  qualifiesForBulkDiscount_def maxSessionCount_def bulkThreshold_def bulkDiscountPercent_def
  monthlyPaymentOf_def giftSessionValue_def originalCostPerProcedure_def js_or_def exact_def
  scenario_params_def scenario_settings_def vip_config_def standard_config_def economy_config_def

subsection \<open>The correction discount\<close>





subsection \<open>The entries of a calculation result\<close>

lemma client_lookup:
  "cr_packages (calculatePackagePricing fl f baseCost params cs) t =
     map_option (pricePackage fl f baseCost params cs) (cp_packageConfig params t)"
  by (simp add: calculatePackagePricing_def)


lemma server_lookup:
  "cr_packages (server_calculatePackagePricing fl g baseCost calculation packages) t =
     map_option (server_pricePackage fl g baseCost calculation packages t) (packageDiscounts packages t)"
  by (simp add: server_calculatePackagePricing_def)



lemma server_finalCost:
  "pd_finalCost (server_pricePackage fl g baseCost calculation packages k d) =
     fl (fl (baseCost - fl (baseCost * server_finalDiscount fl calculation k d))
           - server_certificateDiscount baseCost calculation)"
  by (simp add: server_pricePackage_def Let_def)

lemma server_totalSavings:
  "pd_totalSavings (server_pricePackage fl g baseCost calculation packages k d) =
     fl (fl (fl (baseCost * server_finalDiscount fl calculation k d)
               + server_certificateDiscount baseCost calculation)
           + server_freeZonesValue fl calculation)"
  by (simp add: server_pricePackage_def Let_def)

lemma server_isAvailable:
  "pd_isAvailable (server_pricePackage fl g baseCost calculation packages k d) =
     fst (server_availability g baseCost packages k)"
  by (simp add: server_pricePackage_def Let_def)

lemma server_monthlyPayment:
  "pd_monthlyPayment (server_pricePackage fl g baseCost calculation packages k d) =
     (case sc_installmentMonths calculation of
        None \<Rightarrow> 0
      | Some n \<Rightarrow>
          if fst (server_availability g baseCost packages k) \<and> n > 0 \<and> k \<noteq> ''vip''
          then fl (fl (pd_finalCost (server_pricePackage fl g baseCost calculation packages k d)
                        - sc_downPayment calculation) / n)
          else 0)"
  by (simp add: server_pricePackage_def Let_def split: option.split)

lemma server_appliedDiscounts:
  "pd_appliedDiscounts (server_pricePackage fl g baseCost calculation packages k d) =
     [\<lparr>type = ''package'', amount = fl (baseCost * server_finalDiscount fl calculation k d)\<rparr>]
     @ (if server_additionalDiscount fl calculation > 0
        then [\<lparr>type = ''bulk'', amount = fl (baseCost * fl (25 / 1000))\<rparr>] else [])
     @ (if server_certificateDiscount baseCost calculation > 0
        then [\<lparr>type = ''certificate'', amount = server_certificateDiscount baseCost calculation\<rparr>]
        else [])"
  by (simp add: server_pricePackage_def Let_def)

subsection \<open>The sample inputs, evaluated\<close>

lemma scenario_lookup_client:
  "cp_packageConfig scenario_params ''vip'' = Some vip_config"
  "cp_packageConfig scenario_params ''standard'' = Some standard_config"
  "cp_packageConfig scenario_params ''economy'' = Some economy_config"
  by (simp_all add: scenario_params_def scenario_packageConfig_def)

lemma scenario_packageMap:
  "packageMap scenario_packages ''vip'' = Some scenario_vip"
  "packageMap scenario_packages ''standard'' = Some scenario_standard"
  "packageMap scenario_packages ''economy'' = Some scenario_economy"
  by (simp_all add: packageMap_def scenario_packages_def scenario_vip_def scenario_standard_def
      scenario_economy_def)

lemma scenario_packageDiscounts:
  "packageDiscounts scenario_packages ''vip'' = Some (30 / 100)"
  "packageDiscounts scenario_packages ''standard'' = Some (25 / 100)"
  "packageDiscounts scenario_packages ''economy'' = Some (20 / 100)"
  by (simp_all add: packageDiscounts_def scenario_packageMap)
     (simp_all add: scenario_vip_def scenario_standard_def scenario_economy_def)





lemmas server_eval = server_finalDiscount_def server_additionalDiscount_def
  server_totalProcedures_def server_certificateDiscount_def server_freeZonesValue_def
  scenario_calculation_def exact_def

lemma scenario_economy_server_price:
  "pd_finalCost (server_pricePackage exact show_rat 20000 scenario_calculation scenario_packages
                   ''economy'' (20 / 100)) = 16000"
  "pd_totalSavings (server_pricePackage exact show_rat 20000 scenario_calculation scenario_packages
                   ''economy'' (20 / 100)) = 4000"
  "pd_appliedDiscounts (server_pricePackage exact show_rat 20000 scenario_calculation scenario_packages
                   ''economy'' (20 / 100)) = [\<lparr>type = ''package'', amount = 4000\<rparr>]"
  by (simp_all add: server_finalCost server_totalSavings server_appliedDiscounts server_eval)

subsection \<open>The savings identity\<close>






subsection \<open>Availability\<close>

text \<open>
  Claim C5, as the code has it. A package is available exactly when the base cost
  reaches its \<open>minCost\<close>. When it is not, \<open>unavailableReason\<close> is the text that prints the
  shortfall \<open>minCost - baseCost\<close> and the required minimum, and \<open>monthlyPayment\<close> is 0.
  \<open>finalCost\<close>, \<open>totalSavings\<close> and \<open>appliedDiscounts\<close> do not depend on \<open>minCost\<close> at all: an
  unavailable package carries the values it would carry with any other minimum, in
  particular with one that makes it available.
\<close>

theorem availability_and_pricing_fields:
  "(pd_isAvailable (pricePackage fl f baseCost params cs c) \<longleftrightarrow> baseCost \<ge> cfg_minCost c)
   \<and> (\<not> pd_isAvailable (pricePackage fl f baseCost params cs c) \<longrightarrow>
        pd_unavailableReason (pricePackage fl f baseCost params cs c) =
          reason_prefix @ f (fl (cfg_minCost c - baseCost)) @ reason_middle @ f (cfg_minCost c)
            @ reason_suffix
        \<and> pd_monthlyPayment (pricePackage fl f baseCost params cs c) = 0)
   \<and> (pd_isAvailable (pricePackage fl f baseCost params cs c) \<longrightarrow>
        pd_unavailableReason (pricePackage fl f baseCost params cs c) = [])
   \<and> pd_finalCost (pricePackage fl f baseCost params cs (c\<lparr>cfg_minCost := m\<rparr>))
        = pd_finalCost (pricePackage fl f baseCost params cs c)
   \<and> pd_totalSavings (pricePackage fl f baseCost params cs (c\<lparr>cfg_minCost := m\<rparr>))
        = pd_totalSavings (pricePackage fl f baseCost params cs c)
   \<and> pd_appliedDiscounts (pricePackage fl f baseCost params cs (c\<lparr>cfg_minCost := m\<rparr>))
        = pd_appliedDiscounts (pricePackage fl f baseCost params cs c)"
proof -
  have ad: "actualDiscounts fl baseCost params cs (c\<lparr>cfg_minCost := m\<rparr>)
              = actualDiscounts fl baseCost params cs c"
    by (simp add: actualDiscounts_def packageDiscount_def discountOf_def split: option.split)
  have ap: "appliedDiscountsOf fl baseCost params cs (c\<lparr>cfg_minCost := m\<rparr>)
              = appliedDiscountsOf fl baseCost params cs c"
    by (simp add: appliedDiscountsOf_def packageDiscount_def discountOf_def giftSessionValue_def
        split: option.split)
  show ?thesis
    by (simp add: pricePackage_fields ad ap unavailableReasonOf_def Let_def)
qed

theorem availability_and_pricing_fields_witness:
  "\<not> pd_isAvailable (pricePackage exact show_rat 9000 scenario_params scenario_settings economy_config)
   \<and> pd_unavailableReason (pricePackage exact show_rat 9000 scenario_params scenario_settings
                            economy_config)
       = reason_prefix @ show_rat 1000 @ reason_middle @ show_rat 10000 @ reason_suffix
   \<and> pd_monthlyPayment (pricePackage exact show_rat 9000 scenario_params scenario_settings
                          economy_config) = 0
   \<and> pd_isAvailable (pricePackage exact show_rat 20000 scenario_params scenario_settings economy_config)
   \<and> pd_unavailableReason (pricePackage exact show_rat 20000 scenario_params scenario_settings
                            economy_config) = []"
  using availability_and_pricing_fields
          [of exact show_rat 9000 scenario_params scenario_settings economy_config]
        availability_and_pricing_fields
          [of exact show_rat 20000 scenario_params scenario_settings economy_config]
  by (simp add: economy_config_def exact_def)

text \<open>
  The claim as worded also lists \<open>monthlyPayment\<close> among the fields that keep their value.
  With a base cost of 20000 the economy package has a monthly payment of 5500 when its
  minimum is 10000, and of 0 when its minimum is 30000.
\<close>

theorem unavailable_monthly_payment_counterexample:
  "pd_monthlyPayment (pricePackage exact show_rat 20000 scenario_params scenario_settings
      (economy_config\<lparr>cfg_minCost := 30000\<rparr>)) = 0
   \<and> pd_monthlyPayment (pricePackage exact show_rat 20000 scenario_params scenario_settings
      (economy_config\<lparr>cfg_minCost := 10000\<rparr>)) = 5500"
  by (simp add: pricePackage_fields client_eval)

subsection \<open>The bulk discount\<close>

lemma fold_plus_sum_list:
  "fold (\<lambda>x (s::rat). s + g x) xs a = a + sum_list (map g xs)"
  by (induction xs arbitrary: a) (simp_all add: add.assoc)

lemma server_totalProcedures_foldl:
  "server_totalProcedures fl calculation
     = foldl (\<lambda>sum q. fl (sum + q)) 0 (map svc_quantity (sc_services calculation))"
  by (simp add: server_totalProcedures_def foldl_conv_fold fold_map comp_def)

text \<open>
  Claim C7, as the code has it. In the client engine, with a threshold of 15, the bulk
  amount is 0 when the procedure count it is given (the largest session count, as the
  selector reports it) is below 15, and the product \<open>baseCost \<times> bulkDiscountPercentage\<close>
  from 15 on. The server copy does not look at session counts: it adds up the quantities
  of the services, one after the other, and applies a fixed 2.5 percent when that sum
  reaches 15, listing a bulk entry of \<open>baseCost \<times> 0.025\<close> exactly then.
\<close>

theorem bulk_discount_threshold:
  "(bulkThreshold cs = 15 \<longrightarrow>
      (maxSessionCount params < 15 \<longrightarrow> additionalDiscount fl baseCost params cs = 0)
      \<and> (maxSessionCount params \<ge> 15 \<longrightarrow>
           additionalDiscount fl baseCost params cs = fl (baseCost * bulkDiscountPercent fl cs)))
   \<and> server_totalProcedures fl calculation
       = foldl (\<lambda>sum q. fl (sum + q)) 0 (map svc_quantity (sc_services calculation))
   \<and> ((\<forall>x. fl x = x) \<longrightarrow>
        server_totalProcedures fl calculation = sum_list (map svc_quantity (sc_services calculation)))
   \<and> (server_totalProcedures fl calculation < 15 \<longrightarrow> server_additionalDiscount fl calculation = 0)
   \<and> (rounding fl \<and> server_totalProcedures fl calculation \<ge> 15 \<longrightarrow>
        server_additionalDiscount fl calculation = fl (25 / 1000))
   \<and> (rounding fl \<and> 0 < fl (25 / 1000) \<longrightarrow>
        (\<lparr>type = ''bulk'', amount = fl (baseCost * fl (25 / 1000))\<rparr>
           \<in> set (pd_appliedDiscounts (server_pricePackage fl f baseCost calculation packages k d))
         \<longleftrightarrow> server_totalProcedures fl calculation \<ge> 15))"
proof -
  have a: "bulkThreshold cs = 15 \<longrightarrow>
      (maxSessionCount params < 15 \<longrightarrow> additionalDiscount fl baseCost params cs = 0)
      \<and> (maxSessionCount params \<ge> 15 \<longrightarrow>
           additionalDiscount fl baseCost params cs = fl (baseCost * bulkDiscountPercent fl cs))"
    by (simp add: additionalDiscount_def qualifiesForBulkDiscount_def)
  note b = server_totalProcedures_foldl [of fl calculation]
  have b': "(\<forall>x. fl x = x) \<longrightarrow>
        server_totalProcedures fl calculation = sum_list (map svc_quantity (sc_services calculation))"
    by (simp add: server_totalProcedures_def fold_plus_sum_list)
  have c: "server_totalProcedures fl calculation < 15 \<longrightarrow> server_additionalDiscount fl calculation = 0"
    by (simp add: server_additionalDiscount_def)
  have d: "rounding fl \<and> server_totalProcedures fl calculation \<ge> 15 \<longrightarrow>
        server_additionalDiscount fl calculation = fl (25 / 1000)"
    by (simp add: server_additionalDiscount_def rounding_idem)
  have e: "rounding fl \<and> 0 < fl (25 / 1000) \<longrightarrow>
        (\<lparr>type = ''bulk'', amount = fl (baseCost * fl (25 / 1000))\<rparr>
           \<in> set (pd_appliedDiscounts (server_pricePackage fl f baseCost calculation packages k d))
         \<longleftrightarrow> server_totalProcedures fl calculation \<ge> 15)"
    by (simp add: server_appliedDiscounts server_additionalDiscount_def rounding_idem)
  from a b b' c d e show ?thesis by blast
qed

theorem bulk_discount_threshold_witness:
  "bulkThreshold scenario_settings = 15
   \<and> maxSessionCount scenario_params < 15
   \<and> additionalDiscount exact 20000 scenario_params scenario_settings = 0
   \<and> maxSessionCount (scenario_params\<lparr>cp_procedureCount := Some 15\<rparr>) \<ge> 15
   \<and> additionalDiscount exact 20000 (scenario_params\<lparr>cp_procedureCount := Some 15\<rparr>) scenario_settings = 500
   \<and> server_totalProcedures exact scenario_calculation < 15
   \<and> server_additionalDiscount exact scenario_calculation = 0
   \<and> server_totalProcedures exact (scenario_calculation\<lparr>sc_services := [\<lparr>svc_id = 1, svc_quantity = 15\<rparr>]\<rparr>) \<ge> 15
   \<and> server_additionalDiscount exact (scenario_calculation\<lparr>sc_services := [\<lparr>svc_id = 1, svc_quantity = 15\<rparr>]\<rparr>) = 25 / 1000
   \<and> \<lparr>type = ''bulk'', amount = 500\<rparr>
       \<in> set (pd_appliedDiscounts (server_pricePackage exact show_rat 20000
                (scenario_calculation\<lparr>sc_services := [\<lparr>svc_id = 1, svc_quantity = 15\<rparr>]\<rparr>)
                scenario_packages ''standard'' (25 / 100)))"
proof -
  have t: "bulkThreshold scenario_settings = 15"
    by (simp add: bulkThreshold_def scenario_settings_def js_or_def)
  have p: "bulkDiscountPercent exact scenario_settings = 25 / 1000"
    by (simp add: bulkDiscountPercent_def scenario_settings_def js_or_def)
  have m1: "maxSessionCount scenario_params < 15"
    by (simp add: maxSessionCount_def scenario_params_def js_or_def)
  have m2: "maxSessionCount (scenario_params\<lparr>cp_procedureCount := Some 15\<rparr>) \<ge> 15"
    by (simp add: maxSessionCount_def js_or_def)
  have s1: "server_totalProcedures exact scenario_calculation < 15"
    by (simp add: server_totalProcedures_def scenario_calculation_def exact_def)
  have s2: "server_totalProcedures exact (scenario_calculation\<lparr>sc_services := [\<lparr>svc_id = 1, svc_quantity = 15\<rparr>]\<rparr>) \<ge> 15"
    by (simp add: server_totalProcedures_def exact_def)
  have pos: "(0::rat) < exact (25 / 1000)"
    by (simp add: exact_def)
  show ?thesis
    using bulk_discount_threshold [of scenario_settings scenario_params exact 20000 scenario_calculation]
      bulk_discount_threshold [of scenario_settings "scenario_params\<lparr>cp_procedureCount := Some 15\<rparr>" exact 20000
            "scenario_calculation\<lparr>sc_services := [\<lparr>svc_id = 1, svc_quantity = 15\<rparr>]\<rparr>"
            show_rat scenario_packages "''standard''" "25 / 100"]
      t p m1 m2 s1 s2 pos rounding_exact
    by (simp add: exact_all)
qed

text \<open>
  The claim as worded fails on the server copy. Two services of eight sessions each have
  a largest session count of 8; the client engine gives no bulk discount, the server
  copy receives quantities 8 and 8, adds them to 16 and lists a bulk discount of 500.
\<close>

theorem bulk_discount_server_counterexample:
  "maxSessionCountOf eight_sessions_twice = 8
   \<and> additionalDiscount exact 20000
        (scenario_params\<lparr>cp_procedureCount := Some (maxSessionCountOf eight_sessions_twice)\<rparr>)
        scenario_settings = 0
   \<and> server_additionalDiscount exact
        (scenario_calculation\<lparr>sc_services := calculationServices exact eight_sessions_twice\<rparr>)
       = 25 / 1000
   \<and> pd_appliedDiscounts (server_pricePackage exact show_rat 20000
        (scenario_calculation\<lparr>sc_services := calculationServices exact eight_sessions_twice\<rparr>)
        scenario_packages ''standard'' (25 / 100))
       = [\<lparr>type = ''package'', amount = 5500\<rparr>, \<lparr>type = ''bulk'', amount = 500\<rparr>]"
proof -
  have m: "maxSessionCountOf eight_sessions_twice = 8"
    by (simp add: maxSessionCountOf_def eight_sessions_twice_def sessionCountOf_def js_or_def)
  have s: "server_totalProcedures exact
             (scenario_calculation\<lparr>sc_services := calculationServices exact eight_sessions_twice\<rparr>) = 16"
    by (simp add: server_totalProcedures_def calculationServices_def eight_sessions_twice_def
        sessionCountOf_def js_or_def exact_def)
  have a: "server_additionalDiscount exact
             (scenario_calculation\<lparr>sc_services := calculationServices exact eight_sessions_twice\<rparr>)
       = 25 / 1000"
    by (simp add: server_additionalDiscount_def s) (simp add: exact_def)
  have c: "additionalDiscount exact 20000
        (scenario_params\<lparr>cp_procedureCount := Some (maxSessionCountOf eight_sessions_twice)\<rparr>)
        scenario_settings = 0"
    by (simp add: m additionalDiscount_def qualifiesForBulkDiscount_def maxSessionCount_def
        bulkThreshold_def js_or_def scenario_settings_def)
  have l: "pd_appliedDiscounts (server_pricePackage exact show_rat 20000
        (scenario_calculation\<lparr>sc_services := calculationServices exact eight_sessions_twice\<rparr>)
        scenario_packages ''standard'' (25 / 100))
       = [\<lparr>type = ''package'', amount = 5500\<rparr>, \<lparr>type = ''bulk'', amount = 500\<rparr>]"
  proof -
    have u: "\<not> sc_usedCertificate scenario_calculation"
      and dp: "sc_downPayment scenario_calculation = 5000"
      by (simp_all add: scenario_calculation_def)
    show ?thesis
      by (simp add: server_appliedDiscounts a server_finalDiscount_def server_certificateDiscount_def
          u dp) (simp add: exact_def)
  qed
  from m a c l show ?thesis by blast
qed

section \<open>The two pricing functions compared\<close>

lemma server_lookup_row:
  assumes "t \<in> {''vip'', ''standard'', ''economy''}" and "packageMap packages t = Some pkg"
  shows "cr_packages (server_calculatePackagePricing fl g baseCost calculation packages) t =
           Some (server_pricePackage fl g baseCost calculation packages t (pkg_discount pkg))"
  using assms by (auto simp: server_lookup packageDiscounts_def)

text \<open>
  Claim C2, as the code has it. The two copies agree on their common core only: a
  package type among \<open>vip\<close>, \<open>standard\<close> and \<open>economy\<close>, the client's configuration
  carrying the discount, minimum cost and full-payment flag of the same row, the same
  down payment, months and certificate flag, no correction, free zones without value, no
  gift-session value, the bulk discount reached on neither side, the certificate unused
  or the settings at the amounts the server hard-codes (3000 from 25000), a down payment
  of at most 10000 for the economy package, and full payment required exactly by \<open>vip\<close>.
  There they agree on \<open>totalSavings\<close>, \<open>appliedDiscounts\<close> and availability. The client
  subtracts the sum of the package amount and the certificate discount from the base
  cost, the server subtracts the one and then the other: the two final costs, and the
  monthly payments computed from them, are equal when no certificate discount applies,
  and in arithmetic that does not round.
\<close>

theorem client_server_agreement:
  assumes cfg: "cp_packageConfig params t = Some c"
    and row: "packageMap packages t = Some pkg"
    and discount: "discountOf c = pkg_discount pkg"
    and minCost: "cfg_minCost c = pkg_minCost pkg"
    and fullPayment: "cfg_requiresFullPayment c = pkg_requiresFullPayment pkg"
    and t: "t \<in> {''vip'', ''standard'', ''economy''}"
    and dp: "cp_downPayment params = sc_downPayment calculation"
    and months: "sc_installmentMonths calculation = Some (cp_installmentMonths params)"
    and cert: "cp_usedCertificate params = sc_usedCertificate calculation"
    and no_correction: "correctionPercentOf params = 0"
    and no_free_zones: "server_freeZonesValue fl calculation = 0"
    and no_gift: "giftSessionValue fl baseCost params c \<le> 0"
    and no_bulk_client: "\<not> qualifiesForBulkDiscount params cs"
    and no_bulk_server: "server_totalProcedures fl calculation < 15"
    and cert_defaults: "\<not> cp_usedCertificate params
        \<or> (js_or (cs_certificateDiscountAmount cs) 3000 = 3000
            \<and> js_or (cs_certificateMinCourseAmount cs) 25000 = 25000)"
    and economy: "t = ''economy'' \<longrightarrow> sc_downPayment calculation \<le> 10000"
    and full: "pkg_requiresFullPayment pkg \<longleftrightarrow> t = ''vip''"
    and fl: "rounding fl"
    and double: "fl (pkg_discount pkg) = pkg_discount pkg"
  shows "\<exists>P Q. cr_packages (calculatePackagePricing fl f baseCost params cs) t = Some P
      \<and> cr_packages (server_calculatePackagePricing fl g baseCost calculation packages) t = Some Q
      \<and> pd_totalSavings P = pd_totalSavings Q
      \<and> pd_appliedDiscounts P = pd_appliedDiscounts Q
      \<and> pd_isAvailable P = pd_isAvailable Q
      \<and> pd_finalCost P =
          fl (baseCost - fl (fl (baseCost * pkg_discount pkg)
                               + server_certificateDiscount baseCost calculation))
      \<and> pd_finalCost Q =
          fl (fl (baseCost - fl (baseCost * pkg_discount pkg))
                - server_certificateDiscount baseCost calculation)
      \<and> (server_certificateDiscount baseCost calculation = 0 \<or> (\<forall>x. fl x = x) \<longrightarrow>
           pd_finalCost P = pd_finalCost Q \<and> pd_monthlyPayment P = pd_monthlyPayment Q)"
proof -
  let ?P = "pricePackage fl f baseCost params cs c"
  let ?Q = "server_pricePackage fl g baseCost calculation packages t (pkg_discount pkg)"
  let ?amount = "fl (baseCost * pkg_discount pkg)"
  let ?cert = "server_certificateDiscount baseCost calculation"
  note idem = rounding_idem [OF fl]
  note zero = rounding_zero [OF fl]
  have P: "cr_packages (calculatePackagePricing fl f baseCost params cs) t = Some ?P"
    by (simp add: client_lookup cfg)
  have Q: "cr_packages (server_calculatePackagePricing fl g baseCost calculation packages) t = Some ?Q"
    by (rule server_lookup_row [OF t row])
  have sadd: "server_additionalDiscount fl calculation = 0"
    using no_bulk_server by (simp add: server_additionalDiscount_def)
  have sfin: "server_finalDiscount fl calculation t (pkg_discount pkg) = pkg_discount pkg"
    using economy by (auto simp: server_finalDiscount_def sadd Let_def double)
  have add: "additionalDiscount fl baseCost params cs = 0"
    using no_bulk_client by (simp add: additionalDiscount_def)
  have corr: "correctionDiscount fl baseCost params = 0"
    by (simp add: correctionDiscount_def no_correction zero)
  have certeq: "certificateDiscount baseCost params cs = ?cert"
    using cert_defaults cert by (auto simp: certificateDiscount_def server_certificateDiscount_def)
  have pkgd: "packageDiscount fl baseCost c = ?amount"
    by (simp add: packageDiscount_def discount)
  have act: "actualDiscounts fl baseCost params cs c = fl (?amount + ?cert)"
    by (simp add: actualDiscounts_def pkgd add corr certeq idem)
  have avail: "fst (server_availability g baseCost packages t) \<longleftrightarrow> pkg_minCost pkg \<le> baseCost"
    by (simp add: server_availability_def row not_less)
  have 1: "pd_totalSavings ?P = pd_totalSavings ?Q"
    by (simp add: pricePackage_totalSavings server_totalSavings act sfin no_free_zones idem)
  have 2: "pd_appliedDiscounts ?P = pd_appliedDiscounts ?Q"
    using no_gift no_bulk_client
    by (simp add: pricePackage_appliedDiscounts server_appliedDiscounts appliedDiscountsOf_def
        pkgd sfin sadd corr certeq)
  have 3: "pd_isAvailable ?P = pd_isAvailable ?Q"
    by (simp add: pricePackage_isAvailable server_isAvailable avail minCost)
  have 4: "pd_finalCost ?P = fl (baseCost - fl (?amount + ?cert))"
    by (simp add: pricePackage_finalCost act)
  have 5: "pd_finalCost ?Q = fl (fl (baseCost - ?amount) - ?cert)"
    by (simp add: server_finalCost sfin)
  have 6: "pd_finalCost ?P = pd_finalCost ?Q \<and> pd_monthlyPayment ?P = pd_monthlyPayment ?Q"
    if "?cert = 0 \<or> (\<forall>x. fl x = x)"
  proof -
    from that have eq: "fl (baseCost - fl (?amount + ?cert)) = fl (fl (baseCost - ?amount) - ?cert)"
    proof
      assume "?cert = 0"
      then show ?thesis
        by (simp add: idem)
    next
      assume "\<forall>x. fl x = x"
      then show ?thesis
        by (simp add: algebra_simps)
    qed
    then have fc: "pd_finalCost ?P = pd_finalCost ?Q"
      by (simp add: 4 5)
    have "pd_monthlyPayment ?P = pd_monthlyPayment ?Q"
      using full eq
      by (simp add: pricePackage_monthlyPayment server_monthlyPayment months act sfin avail minCost
          fullPayment monthlyPaymentOf_def dp server_finalCost)
    with fc show ?thesis
      by simp
  qed
  from P Q 1 2 3 4 5 6 show ?thesis
    by blast
qed

theorem client_server_agreement_witness:
  "cp_packageConfig scenario_params ''economy'' = Some economy_config
   \<and> packageMap scenario_packages ''economy'' = Some scenario_economy
   \<and> discountOf economy_config = pkg_discount scenario_economy
   \<and> cp_downPayment scenario_params = sc_downPayment scenario_calculation
   \<and> sc_installmentMonths scenario_calculation = Some (cp_installmentMonths scenario_params)
   \<and> correctionPercentOf scenario_params = 0
   \<and> server_freeZonesValue exact scenario_calculation = 0
   \<and> giftSessionValue exact 20000 scenario_params economy_config \<le> 0
   \<and> \<not> qualifiesForBulkDiscount scenario_params scenario_settings
   \<and> server_totalProcedures exact scenario_calculation < 15
   \<and> \<not> cp_usedCertificate scenario_params
   \<and> sc_downPayment scenario_calculation \<le> 10000
   \<and> \<not> pkg_requiresFullPayment scenario_economy
   \<and> server_certificateDiscount 20000 scenario_calculation = 0
   \<and> (\<exists>P Q. cr_packages (calculatePackagePricing exact show_rat 20000 scenario_params scenario_settings)
               ''economy'' = Some P
      \<and> cr_packages (server_calculatePackagePricing exact show_rat 20000 scenario_calculation
                       scenario_packages) ''economy'' = Some Q
      \<and> pd_totalSavings P = pd_totalSavings Q \<and> pd_appliedDiscounts P = pd_appliedDiscounts Q
      \<and> pd_isAvailable P = pd_isAvailable Q
      \<and> pd_finalCost P = pd_finalCost Q \<and> pd_monthlyPayment P = pd_monthlyPayment Q)"
proof -
  note h1 = scenario_lookup_client(3)
  note h2 = scenario_packageMap(3)
  have h3: "discountOf economy_config = pkg_discount scenario_economy"
    and h3a: "cfg_minCost economy_config = pkg_minCost scenario_economy"
    and h3b: "cfg_requiresFullPayment economy_config = pkg_requiresFullPayment scenario_economy"
    and h13: "\<not> pkg_requiresFullPayment scenario_economy"
    by (simp_all add: discountOf_def economy_config_def scenario_economy_def)
  have h4: "cp_downPayment scenario_params = sc_downPayment scenario_calculation"
    and h5: "sc_installmentMonths scenario_calculation = Some (cp_installmentMonths scenario_params)"
    and h6: "cp_usedCertificate scenario_params = sc_usedCertificate scenario_calculation"
    and h11: "\<not> cp_usedCertificate scenario_params"
    and h12: "sc_downPayment scenario_calculation \<le> 10000"
    by (simp_all add: scenario_params_def scenario_calculation_def)
  have h7: "correctionPercentOf scenario_params = 0"
    by (simp add: correctionPercentOf_def scenario_params_def)
  have h8: "server_freeZonesValue exact scenario_calculation = 0"
    by (simp add: server_freeZonesValue_def scenario_calculation_def)
  have h9: "giftSessionValue exact 20000 scenario_params economy_config \<le> 0"
    by (simp add: client_eval)
  have h10: "\<not> qualifiesForBulkDiscount scenario_params scenario_settings"
    by (simp add: client_eval)
  have h14: "server_totalProcedures exact scenario_calculation < 15"
    by (simp add: server_eval)
  have h15: "server_certificateDiscount 20000 scenario_calculation = 0"
    by (simp add: server_eval)
  have h16: "exact (pkg_discount scenario_economy) = pkg_discount scenario_economy"
    by (simp add: exact_def)
  have "\<exists>P Q. cr_packages (calculatePackagePricing exact show_rat 20000 scenario_params scenario_settings)
               ''economy'' = Some P
      \<and> cr_packages (server_calculatePackagePricing exact show_rat 20000 scenario_calculation
                       scenario_packages) ''economy'' = Some Q
      \<and> pd_totalSavings P = pd_totalSavings Q \<and> pd_appliedDiscounts P = pd_appliedDiscounts Q
      \<and> pd_isAvailable P = pd_isAvailable Q
      \<and> pd_finalCost P = pd_finalCost Q \<and> pd_monthlyPayment P = pd_monthlyPayment Q"
    using client_server_agreement [OF h1 h2 h3 h3a h3b _ h4 h5 h6 h7 h8 h9 h10 h14 _ _ _
        rounding_exact h16, where f = show_rat and g = show_rat]
      h11 h12 h13 h15
    by simp blast
  with h1 h2 h3 h4 h5 h7 h8 h9 h10 h11 h12 h13 h14 h15 show ?thesis
    by blast
qed

text \<open>
  The claim as worded fails: the server copy has no correction discount. With a
  correction of 5 percent on 20000 the client engine prices the packages at 13000, 14000
  and 15000, the server copy at 14000, 15000 and 16000.
\<close>

theorem client_server_counterexample:
  "map (\<lambda>k. map_option pd_finalCost
               (cr_packages (calculatePackagePricing exact show_rat 20000
                  (scenario_params\<lparr>cp_correctionPercent := Some 5\<rparr>) scenario_settings) k))
     [''vip'', ''standard'', ''economy'']
     = [Some 13000, Some 14000, Some 15000]
   \<and> map (\<lambda>k. map_option pd_finalCost
               (cr_packages (server_calculatePackagePricing exact show_rat 20000 scenario_calculation
                  scenario_packages) k))
     [''vip'', ''standard'', ''economy'']
     = [Some 14000, Some 15000, Some 16000]"
proof -
  have client: "map (\<lambda>k. map_option pd_finalCost
               (cr_packages (calculatePackagePricing exact show_rat 20000
                  (scenario_params\<lparr>cp_correctionPercent := Some 5\<rparr>) scenario_settings) k))
     [''vip'', ''standard'', ''economy'']
     = [Some 13000, Some 14000, Some 15000]"
    by (simp add: client_lookup pricePackage_finalCost scenario_packageConfig_def client_eval)
  have server: "map (\<lambda>k. map_option pd_finalCost
               (cr_packages (server_calculatePackagePricing exact show_rat 20000 scenario_calculation
                  scenario_packages) k))
     [''vip'', ''standard'', ''economy'']
     = [Some 14000, Some 15000, Some 16000]"
    by (simp add: server_lookup scenario_packageDiscounts server_finalCost server_eval)
  from client server show ?thesis by blast
qed

section \<open>Selecting a package that requires full payment\<close>

lemma scenario_vip_price:
  "pd_finalCost (pricePackage exact show_rat 20000 (scenario_params\<lparr>cp_downPayment := d\<rparr>)
                   scenario_settings vip_config) = 14000"
  "pd_isAvailable (pricePackage exact show_rat 20000 (scenario_params\<lparr>cp_downPayment := d\<rparr>)
                     scenario_settings vip_config)"
  "pd_monthlyPayment (pricePackage exact show_rat 20000 (scenario_params\<lparr>cp_downPayment := d\<rparr>)
                        scenario_settings vip_config) = 0"
  by (simp_all add: pricePackage_fields client_eval)

lemma scenario_vip_row: "find (\<lambda>p. pkg_type p = ''vip'') scenario_packages = Some scenario_vip"
  by (simp add: scenario_packages_def scenario_vip_def)

text \<open>
  What the handler does for an available package whose definition requires full
  payment: the selection is stored, and the down payment becomes the package's
  \<open>finalCost\<close> when the handler's own \<open>downPayment\<close> is the one of the state (the render has
  settled) or differs from that \<open>finalCost\<close>; otherwise the handler takes the down payment
  for set and leaves the state's value as it is. The engine reports a monthly payment of
  0 for a package that requires full payment, and \<open>finalCost\<close> does not depend on the down
  payment.
\<close>

lemma setSelectedPackage_full_payment:
  assumes "packageType = Some t" and "t \<noteq> []" and "ss_calculation st = Some calculation"
    and "cr_packages calculation t = Some packageData" and "pd_isAvailable packageData"
    and "find (\<lambda>p. pkg_type p = t) (ss_packages st) = Some packageConfig"
    and "pkg_requiresFullPayment packageConfig"
  shows "ss_selectedPackage (setSelectedPackage fl st packageType) = Some t"
    and "ss_downPayment (setSelectedPackage fl st packageType) =
           (if ss_handlerDownPayment st = pd_finalCost packageData then ss_downPayment st
            else pd_finalCost packageData)"
proof -
  from assms have ne: "ss_packages st \<noteq> []"
    by auto
  from assms ne show "ss_selectedPackage (setSelectedPackage fl st packageType) = Some t"
    by (simp add: setSelectedPackage_def Let_def newDownPaymentOf_def)
  from assms ne show "ss_downPayment (setSelectedPackage fl st packageType) =
           (if ss_handlerDownPayment st = pd_finalCost packageData then ss_downPayment st
            else pd_finalCost packageData)"
    by (simp add: setSelectedPackage_def Let_def newDownPaymentOf_def)
qed

lemma full_payment_pinning_settled:
  assumes "packageType = Some t" and "t \<noteq> []" and "ss_calculation st = Some calculation"
    and "cr_packages calculation t = Some packageData" and "pd_isAvailable packageData"
    and "find (\<lambda>p. pkg_type p = t) (ss_packages st) = Some packageConfig"
    and "pkg_requiresFullPayment packageConfig"
    and "ss_handlerDownPayment st = ss_downPayment st
         \<or> ss_handlerDownPayment st \<noteq> pd_finalCost packageData"
  shows "ss_downPayment (setSelectedPackage fl st packageType) = pd_finalCost packageData"
  using assms(8) by (auto simp: setSelectedPackage_full_payment(2) [OF assms(1-7)])

lemma full_payment_monthly_zero:
  "cfg_requiresFullPayment c \<Longrightarrow> pd_monthlyPayment (pricePackage fl f baseCost params cs c) = 0"
  by (simp add: pricePackage_monthlyPayment monthlyPaymentOf_def)

lemma finalCost_ignores_downPayment:
  "pd_finalCost (pricePackage fl f baseCost (params\<lparr>cp_downPayment := d\<rparr>) cs c)
     = pd_finalCost (pricePackage fl f baseCost params cs c)"
proof -
  have "actualDiscounts fl baseCost (params\<lparr>cp_downPayment := d\<rparr>) cs c
          = actualDiscounts fl baseCost params cs c"
    by (simp add: actualDiscounts_def certificateDiscount_def additionalDiscount_def
        correctionDiscount_def correctionPercentOf_def qualifiesForBulkDiscount_def
        maxSessionCount_def)
  then show ?thesis
    by (simp add: pricePackage_finalCost)
qed

lemma settled_state_fields:
  "ss_downPayment settled_state = 14000"
  "ss_handlerDownPayment settled_state = 14000"
  "ss_selectedPackage settled_state = None"
  "ss_packages settled_state = scenario_packages"
  "ss_calculation settled_state =
     Some (calculatePackagePricing exact show_rat 20000 (scenario_params\<lparr>cp_downPayment := 14000\<rparr>)
             scenario_settings)"
  by (simp_all add: settled_state_def setCalculation_def setDownPayment_def scenario_state_def)

lemma unsettled_state_fields:
  "ss_downPayment unsettled_state = 9000"
  "ss_handlerDownPayment unsettled_state = 14000"
  "ss_packages unsettled_state = scenario_packages"
  "ss_calculation unsettled_state =
     Some (calculatePackagePricing exact show_rat 20000 (scenario_params\<lparr>cp_downPayment := 14000\<rparr>)
             scenario_settings)"
  by (simp_all add: unsettled_state_def setDownPayment_def settled_state_fields)

lemma unsettled_vip:
  "cr_packages (calculatePackagePricing exact show_rat 20000 (scenario_params\<lparr>cp_downPayment := d\<rparr>)
                  scenario_settings) ''vip''
     = Some (pricePackage exact show_rat 20000 (scenario_params\<lparr>cp_downPayment := d\<rparr>)
               scenario_settings vip_config)"
  by (simp add: client_lookup scenario_params_def scenario_packageConfig_def)

text \<open>
  Claim C6, at an input on which the code departs from it. The session holds a down
  payment of 14000 in a settled render; the user moves the down payment to 9000 and
  selects the \<open>vip\<close> package, which is available, requires full payment and costs 14000,
  before the recalculation has run. The handler still reads 14000 as the down payment,
  finds it equal to the package's \<open>finalCost\<close> and sets nothing: the package is selected
  and the down payment stays 9000. The recalculation that follows prices \<open>vip\<close> at 14000
  again and does not touch the down payment.
\<close>

theorem stale_handler_keeps_down_payment:
  "ss_downPayment settled_state = 14000
   \<and> ss_handlerDownPayment settled_state = 14000
   \<and> unsettled_state = setDownPayment settled_state 9000
   \<and> find (\<lambda>p. pkg_type p = ''vip'') (ss_packages unsettled_state) = Some scenario_vip
   \<and> pkg_requiresFullPayment scenario_vip
   \<and> map_option (\<lambda>calculation. map_option (\<lambda>p. (pd_isAvailable p, pd_finalCost p))
                                   (cr_packages calculation ''vip''))
       (ss_calculation unsettled_state) = Some (Some (True, 14000))
   \<and> ss_selectedPackage (setSelectedPackage exact unsettled_state (Some ''vip'')) = Some ''vip''
   \<and> ss_downPayment (setSelectedPackage exact unsettled_state (Some ''vip'')) = 9000
   \<and> ss_downPayment
       (setCalculation (setSelectedPackage exact unsettled_state (Some ''vip''))
          (Some (calculatePackagePricing exact show_rat 20000
                   (scenario_params\<lparr>cp_downPayment := 9000\<rparr>) scenario_settings))) = 9000
   \<and> map_option pd_finalCost
       (cr_packages (calculatePackagePricing exact show_rat 20000
                       (scenario_params\<lparr>cp_downPayment := 9000\<rparr>) scenario_settings) ''vip'')
       = Some 14000"
proof -
  let ?calc = "calculatePackagePricing exact show_rat 20000 (scenario_params\<lparr>cp_downPayment := 14000\<rparr>)
                 scenario_settings"
  let ?vip = "pricePackage exact show_rat 20000 (scenario_params\<lparr>cp_downPayment := 14000\<rparr>)
                scenario_settings vip_config"
  have row: "find (\<lambda>p. pkg_type p = ''vip'') (ss_packages unsettled_state) = Some scenario_vip"
    unfolding unsettled_state_fields by (rule scenario_vip_row)
  have full: "pkg_requiresFullPayment scenario_vip"
    by (simp add: scenario_vip_def)
  have entry: "cr_packages ?calc ''vip'' = Some ?vip"
    by (rule unsettled_vip)
  note sel = setSelectedPackage_full_payment [OF refl _ unsettled_state_fields(4) entry
      scenario_vip_price(2) row full, of exact]
  have s1: "ss_selectedPackage (setSelectedPackage exact unsettled_state (Some ''vip'')) = Some ''vip''"
    using sel(1) by simp
  have s2: "ss_downPayment (setSelectedPackage exact unsettled_state (Some ''vip'')) = 9000"
    using sel(2) by (simp add: unsettled_state_fields scenario_vip_price)
  have s3: "ss_downPayment
       (setCalculation (setSelectedPackage exact unsettled_state (Some ''vip''))
          (Some (calculatePackagePricing exact show_rat 20000
                   (scenario_params\<lparr>cp_downPayment := 9000\<rparr>) scenario_settings))) = 9000"
    by (simp add: setCalculation_def s2)
  have c: "map_option (\<lambda>calculation. map_option (\<lambda>p. (pd_isAvailable p, pd_finalCost p))
                                   (cr_packages calculation ''vip''))
       (ss_calculation unsettled_state) = Some (Some (True, 14000))"
    by (simp add: unsettled_state_fields unsettled_vip scenario_vip_price)
  have after: "map_option pd_finalCost
       (cr_packages (calculatePackagePricing exact show_rat 20000
                       (scenario_params\<lparr>cp_downPayment := 9000\<rparr>) scenario_settings) ''vip'')
       = Some 14000"
    by (simp add: unsettled_vip scenario_vip_price)
  from settled_state_fields(1,2) unsettled_state_def row full c s1 s2 s3 after show ?thesis
    by (intro conjI)
qed

section \<open>The payment schedule\<close>

lemma scheduleLoop_eq:
  "1 \<le> i \<Longrightarrow>
   scheduleLoop str today mp N i sch
     = sch @ map (installmentEntry str today mp N) [i..<Suc (nat \<lfloor>N\<rfloor>)]"
proof (induction str today mp N i sch rule: scheduleLoop.induct)
  case (1 str today mp N i sch)
  show ?case
  proof (cases "of_nat i \<le> N")
    case True
    then have "int i \<le> \<lfloor>N\<rfloor>"
      by (simp add: le_floor_iff)
    then have le: "i \<le> nat \<lfloor>N\<rfloor>"
      by linarith
    then have upt: "[i..<Suc (nat \<lfloor>N\<rfloor>)] = i # [Suc i..<Suc (nat \<lfloor>N\<rfloor>)]"
      by (simp add: upt_conv_Cons)
    have "scheduleLoop str today mp N i sch =
            scheduleLoop str today mp N (Suc i) (sch @ [installmentEntry str today mp N i])"
      using True by (subst scheduleLoop.simps) simp
    also have "\<dots> = (sch @ [installmentEntry str today mp N i])
                     @ map (installmentEntry str today mp N) [Suc i..<Suc (nat \<lfloor>N\<rfloor>)]"
      using True by (intro "1.IH") simp_all
    finally show ?thesis
      unfolding upt by (simp del: upt_Suc)
  next
    case False
    then have "\<lfloor>N\<rfloor> < int i"
      by (simp add: floor_less_iff not_le)
    then have "nat \<lfloor>N\<rfloor> < i"
      using "1.prems" by linarith
    then have "[i..<Suc (nat \<lfloor>N\<rfloor>)] = []"
      by simp
    moreover have "scheduleLoop str today mp N i sch = sch"
      using False by (subst scheduleLoop.simps) simp
    ultimately show ?thesis
      by simp
  qed
qed

lemma schedule_head:
  "generatePaymentSchedule fl str today downPayment finalCost months \<noteq> []
   \<and> hd (generatePaymentSchedule fl str today downPayment finalCost months)
       = \<lparr>se_date = today, se_amount = downPayment, se_description = down_payment_text\<rparr>"
  by (simp add: generatePaymentSchedule_def Let_def scheduleLoop_eq split: option.split)

lemma schedule_tail:
  assumes "1 < n"
  shows "tl (generatePaymentSchedule fl str today downPayment finalCost (Some (of_nat n)))
          = map (installmentEntry str today (fl (fl (finalCost - downPayment) / of_nat n)) (of_nat n))
              [1..<Suc n]"
  using assms by (simp add: generatePaymentSchedule_def Let_def scheduleLoop_eq)

text \<open>
  The schedule always starts with the down payment, dated today. For a whole number \<open>n\<close>
  of months above 1 it continues with \<open>n\<close> entries, each of the remaining balance divided
  by \<open>n\<close>, and that amount is the \<open>monthlyPayment\<close> the client engine reports for a package
  that is available and does not require full payment, priced with the same down payment
  and the same number of months: both subtract the down payment from the final cost and
  divide the difference. With one month the schedule has no installment at all, while
  the engine reports the whole balance as the monthly payment.
\<close>

lemma schedule_amounts:
  assumes "1 < n"
  shows "length (tl (generatePaymentSchedule fl str today downPayment finalCost (Some (of_nat n)))) = n"
    and "map se_amount (tl (generatePaymentSchedule fl str today downPayment finalCost (Some (of_nat n))))
           = replicate n (fl (fl (finalCost - downPayment) / of_nat n))"
    and "map se_date (tl (generatePaymentSchedule fl str today downPayment finalCost (Some (of_nat n))))
           = map (\<lambda>i. setMonth today (dt_month today + i)) [1..<Suc n]"
proof -
  show "length (tl (generatePaymentSchedule fl str today downPayment finalCost (Some (of_nat n)))) = n"
    by (simp add: schedule_tail [OF assms])
  have "map se_amount (map (installmentEntry str today a (of_nat n)) xs) = replicate (length xs) a"
    for a xs
    by (induction xs) (simp_all add: installmentEntry_def)
  then show "map se_amount (tl (generatePaymentSchedule fl str today downPayment finalCost (Some (of_nat n))))
           = replicate n (fl (fl (finalCost - downPayment) / of_nat n))"
    by (simp add: schedule_tail [OF assms])
  show "map se_date (tl (generatePaymentSchedule fl str today downPayment finalCost (Some (of_nat n))))
           = map (\<lambda>i. setMonth today (dt_month today + i)) [1..<Suc n]"
    by (simp add: schedule_tail [OF assms] installmentEntry_def comp_def)
qed

lemma schedule_matches_monthly_payment:
  assumes "1 < n" and "cp_installmentMonths params = of_nat n"
    and "pd_isAvailable (pricePackage fl f baseCost params cs c)" and "\<not> cfg_requiresFullPayment c"
  shows "map se_amount (tl (generatePaymentSchedule fl str today (cp_downPayment params)
                              (pd_finalCost (pricePackage fl f baseCost params cs c)) (Some (of_nat n))))
           = replicate n (pd_monthlyPayment (pricePackage fl f baseCost params cs c))"
proof -
  from assms have "pd_monthlyPayment (pricePackage fl f baseCost params cs c)
      = fl (fl (pd_finalCost (pricePackage fl f baseCost params cs c) - cp_downPayment params) / of_nat n)"
    by (simp add: pricePackage_fields monthlyPaymentOf_def)
  then show ?thesis
    by (simp add: schedule_amounts(2) [OF assms(1)])
qed

lemma schedule_one_month:
  "generatePaymentSchedule fl str today downPayment finalCost (Some 1)
     = [\<lparr>se_date = today, se_amount = downPayment, se_description = down_payment_text\<rparr>]"
  by (simp add: generatePaymentSchedule_def)

text \<open>
  An installment is dated one month further ahead than the one before it when the month
  it falls in has the day of today; a day of at most 28 is in every month.
\<close>

lemma setMonth_regular:
  assumes "dt_day d \<le> 28"
  shows "setMonth d m = \<lparr>dt_year = dt_year d + m div 12, dt_month = m mod 12, dt_day = dt_day d\<rparr>"
proof -
  have "28 \<le> daysInMonth y mn" for y mn
    by (simp add: daysInMonth_def)
  with assms have "dt_day d \<le> daysInMonth (dt_year d + m div 12) (m mod 12)"
    using order_trans by blast
  then show ?thesis
    by (simp add: setMonth_def Let_def)
qed

text \<open>
  Claim C9, at an input on which the code departs from it. On the 31st of January 2025,
  for a final cost of 16000, a down payment of 5000 and two months, the schedule is the
  down payment dated 31 January and two installments of 5500, dated 3 March and 31 March:
  February has no 31st, so the first installment runs over into March, and the two
  installments fall in the same month, 28 days apart.
\<close>

theorem month_end_schedule_dates:
  "map se_date (generatePaymentSchedule exact show_rat january_31 5000 16000 (Some 2))
     = [\<lparr>dt_year = 2025, dt_month = 0, dt_day = 31\<rparr>,
        \<lparr>dt_year = 2025, dt_month = 2, dt_day = 3\<rparr>,
        \<lparr>dt_year = 2025, dt_month = 2, dt_day = 31\<rparr>]
   \<and> map se_amount (generatePaymentSchedule exact show_rat january_31 5000 16000 (Some 2))
     = [5000, 5500, 5500]"
proof -
  have two: "[Suc 0..<3] = [Suc 0, Suc (Suc 0)]"
    by (simp add: numeral_3_eq_3)
  show ?thesis
    by (simp add: generatePaymentSchedule_def Let_def scheduleLoop_eq two installmentEntry_def
        setMonth_def daysInMonth_def leapYear_def january_31_def exact_def)
qed

section \<open>The duplicate search\<close>

subsection \<open>The key text of numbers determines the composition\<close>

lemma digit_char_of_char: "d < 10 \<Longrightarrow> of_char (digit_char d) = 48 + d"
  by (simp add: digit_char_def)

lemma digit_char_inj: "d < 10 \<Longrightarrow> e < 10 \<Longrightarrow> digit_char d = digit_char e \<Longrightarrow> d = e"
  by (simp add: digit_char_def)

lemma digit_char_not_special:
  assumes "d < 10"
  shows "digit_char d \<noteq> CHR '':''" and "digit_char d \<noteq> CHR ''|''" and "digit_char d \<noteq> CHR ''u''"
proof -
  have "(of_char (digit_char d) :: nat) < 58"
    using assms by (simp add: digit_char_of_char)
  moreover have "(of_char (CHR '':'') :: nat) = 58" "(of_char (CHR ''|'') :: nat) = 124"
    "(of_char (CHR ''u'') :: nat) = 117"
    by simp_all
  ultimately show "digit_char d \<noteq> CHR '':''" and "digit_char d \<noteq> CHR ''|''" and "digit_char d \<noteq> CHR ''u''"
    by force+
qed

lemma show_nat_digits: "c \<in> set (show_nat n) \<Longrightarrow> \<exists>d<10. c = digit_char d"
proof (induction n rule: show_nat.induct)
  case (1 n)
  show ?case
  proof (cases "n < 10")
    case True
    with "1.prems" show ?thesis
      by (subst (asm) show_nat.simps) auto
  next
    case False
    with "1.prems" have "c \<in> set (show_nat (n div 10)) \<or> c = digit_char (n mod 10)"
      by (subst (asm) show_nat.simps) auto
    then show ?thesis
    proof
      assume "c \<in> set (show_nat (n div 10))"
      with False "1.IH" show ?thesis by blast
    next
      assume "c = digit_char (n mod 10)"
      moreover have "n mod 10 < 10" by simp
      ultimately show ?thesis by blast
    qed
  qed
qed

lemma show_nat_not_Nil: "show_nat n \<noteq> []"
  by (subst show_nat.simps) simp

lemma show_nat_length_one: "length (show_nat n) = 1 \<longleftrightarrow> n < 10"
proof (cases "n < 10")
  case True
  then show ?thesis by (subst show_nat.simps) simp
next
  case False
  have "length (show_nat (n div 10)) \<noteq> 0"
    using show_nat_not_Nil by simp
  with False show ?thesis
    by (subst show_nat.simps) simp
qed

lemma show_nat_inj: "show_nat m = show_nat n \<Longrightarrow> m = n"
proof (induction m arbitrary: n rule: show_nat.induct)
  case (1 m)
  from "1.prems" have len: "length (show_nat m) = length (show_nat n)"
    by simp
  show ?case
  proof (cases "m < 10")
    case True
    then have "n < 10"
      using len show_nat_length_one by metis
    with True "1.prems" show ?thesis
      by (subst (asm) (1 2) show_nat.simps) (simp add: digit_char_inj)
  next
    case False
    then have n: "\<not> n < 10"
      using len show_nat_length_one by metis
    have "show_nat m = show_nat (m div 10) @ [digit_char (m mod 10)]"
      using False by (subst show_nat.simps) simp
    moreover have "show_nat n = show_nat (n div 10) @ [digit_char (n mod 10)]"
      using n by (subst show_nat.simps) simp
    ultimately have eq: "show_nat (m div 10) = show_nat (n div 10)"
      and d: "digit_char (m mod 10) = digit_char (n mod 10)"
      using "1.prems" by simp_all
    from eq False have "m div 10 = n div 10"
      by (rule "1.IH"[rotated])
    moreover from d have "m mod 10 = n mod 10"
      by (intro digit_char_inj) simp_all
    ultimately show ?thesis
      by (metis div_mult_mod_eq)
  qed
qed

lemma show_nat_no_special: "CHR '':'' \<notin> set (show_nat n)" "CHR ''|'' \<notin> set (show_nat n)"
  by (auto dest!: show_nat_digits dest: digit_char_not_special)

lemma show_nat_not_undefined: "show_nat n \<noteq> ''undefined''"
proof
  assume "show_nat n = ''undefined''"
  then have "CHR ''u'' \<in> set (show_nat n)"
    by simp
  then obtain d where "d < 10" and "CHR ''u'' = digit_char d"
    using show_nat_digits by blast
  then show False
    using digit_char_not_special(3) [of d] by simp
qed

lemma plain_cases: "plain x \<longleftrightarrow> x = None \<or> (\<exists>n. x = Some (Num n))"
  by (auto simp: plain_def split: option.splits scalar.splits)

lemma js_text_no_special:
  assumes "plain x"
  shows "CHR '':'' \<notin> set (js_text x)" and "CHR ''|'' \<notin> set (js_text x)"
  using assms by (auto simp: plain_cases js_text_def show_nat_no_special)

lemma js_text_inj:
  assumes "plain x" and "plain y" and "js_text x = js_text y"
  shows "x = y"
  using assms show_nat_not_undefined show_nat_not_undefined [symmetric]
  by (auto simp: plain_cases js_text_def dest: show_nat_inj)

lemma split_at_separator:
  "c \<notin> set a \<Longrightarrow> c \<notin> set a' \<Longrightarrow> a @ c # b = a' @ c # b' \<Longrightarrow> a = a' \<and> b = b'"
proof (induction a arbitrary: a')
  case Nil
  then show ?case by (cases a') auto
next
  case (Cons h t)
  then show ?case by (cases a') auto
qed

lemma pair_text_inj:
  assumes "plain_pair p" and "plain_pair q" and "pair_text p = pair_text q"
  shows "p = q"
proof -
  from assms(3)
  have "js_text (fst p) @ CHR '':'' # js_text (snd p) = js_text (fst q) @ CHR '':'' # js_text (snd q)"
    by (simp add: pair_text_def)
  moreover have "CHR '':'' \<notin> set (js_text (fst p))" "CHR '':'' \<notin> set (js_text (fst q))"
    using assms(1,2) by (simp_all add: plain_pair_def js_text_no_special)
  ultimately have "js_text (fst p) = js_text (fst q) \<and> js_text (snd p) = js_text (snd q)"
    by (rule split_at_separator [rotated 2])
  moreover have "plain (fst p)" "plain (snd p)" "plain (fst q)" "plain (snd q)"
    using assms(1,2) by (simp_all add: plain_pair_def)
  ultimately have "fst p = fst q" and "snd p = snd q"
    using js_text_inj by blast+
  then show "p = q"
    by (rule prod_eqI)
qed

lemma pair_text_no_bar: "plain_pair p \<Longrightarrow> CHR ''|'' \<notin> set (pair_text p)"
  by (simp add: pair_text_def plain_pair_def js_text_no_special)

lemma pair_text_not_Nil: "pair_text p \<noteq> []"
  by (simp add: pair_text_def)

lemma join_bar_inj:
  assumes "\<forall>x \<in> set xs. CHR ''|'' \<notin> set x \<and> x \<noteq> []"
    and "\<forall>y \<in> set ys. CHR ''|'' \<notin> set y \<and> y \<noteq> []"
    and "join_bar xs = join_bar ys"
  shows "xs = ys"
  using assms
proof (induction xs arbitrary: ys rule: join_bar.induct)
  case 1
  show ?case
  proof (cases ys rule: join_bar.cases)
    case 1
    then show ?thesis by simp
  next
    case (2 y)
    with "1.prems" show ?thesis by simp
  next
    case (3 y y' ys')
    with "1.prems" show ?thesis by simp
  qed
next
  case (2 x)
  show ?case
  proof (cases ys rule: join_bar.cases)
    case 1
    with "2.prems" show ?thesis by simp
  next
    case (2 y)
    with "2.prems" show ?thesis by simp
  next
    case (3 y y' ys')
    with "2.prems"(3) have "x = y @ CHR ''|'' # join_bar (y' # ys')"
      by simp
    then have "CHR ''|'' \<in> set x"
      by simp
    with "2.prems"(1) show ?thesis by simp
  qed
next
  case (3 x x' xs)
  show ?case
  proof (cases ys rule: join_bar.cases)
    case 1
    with "3.prems"(3) show ?thesis by simp
  next
    case (2 y)
    with "3.prems"(3) have "y = x @ CHR ''|'' # join_bar (x' # xs)"
      by simp
    then have "CHR ''|'' \<in> set y"
      by simp
    with "3.prems"(2) 2 show ?thesis by simp
  next
    case ys: (3 y y' ys')
    from "3.prems"(3) ys
    have eq: "x @ CHR ''|'' # join_bar (x' # xs) = y @ CHR ''|'' # join_bar (y' # ys')"
      by simp
    from "3.prems"(1) have nx: "CHR ''|'' \<notin> set x"
      by simp
    from "3.prems"(2) ys have ny: "CHR ''|'' \<notin> set y"
      by simp
    from split_at_separator [OF nx ny eq]
    have h: "x = y" and t: "join_bar (x' # xs) = join_bar (y' # ys')"
      by simp_all
    have wx: "\<forall>a \<in> set (x' # xs). CHR ''|'' \<notin> set a \<and> a \<noteq> []"
      using "3.prems"(1) by simp
    have wy: "\<forall>a \<in> set (y' # ys'). CHR ''|'' \<notin> set a \<and> a \<noteq> []"
      using "3.prems"(2) ys by simp
    have "x' # xs = y' # ys'"
      using wx wy t by (rule "3.IH")
    with h ys show ?thesis by simp
  qed
qed

lemma sort_eq_iff_mset: "sort (xs :: string list) = sort ys \<longleftrightarrow> mset xs = mset ys"
proof
  assume "sort xs = sort ys"
  then have "mset (sort xs) = mset (sort ys)" by simp
  then show "mset xs = mset ys" by simp
next
  assume "mset xs = mset ys"
  then have "sorted_list_of_multiset (mset xs) = sorted_list_of_multiset (mset ys)" by simp
  then show "sort xs = sort ys" by simp
qed

lemma image_mset_pair_text:
  assumes "\<forall>a \<in># A. plain_pair a" and "\<forall>b \<in># B. plain_pair b"
    and "image_mset pair_text A = image_mset pair_text B"
  shows "A = B"
  using assms
proof (induction A arbitrary: B)
  case empty
  then show ?case by simp
next
  case (add a A)
  then have "pair_text a \<in># image_mset pair_text B"
    by (metis image_mset_add_mset union_single_eq_member)
  then obtain b where b: "b \<in># B" and "pair_text b = pair_text a"
    by auto
  moreover have "plain_pair a" "plain_pair b"
    using add.prems(1,2) b by simp_all
  ultimately have ba: "b = a"
    using pair_text_inj by blast
  then obtain B' where B: "B = add_mset a B'"
    using b by (meson mset_add)
  with add.prems have "image_mset pair_text A = image_mset pair_text B'"
    by simp
  moreover have "\<forall>a \<in># A. plain_pair a" "\<forall>b \<in># B'. plain_pair b"
    using add.prems(1,2) B by simp_all
  ultimately have "A = B'"
    using add.IH by blast
  with B show ?case by simp
qed

text \<open>
  The key of a request does not depend on the order of its services. When the
  identifiers and counts of the request and of the stored links are numbers (or
  missing), the two keys are equal exactly when the two collections of
  (service, session count) pairs are: printing the numbers, the \<open>:\<close> and \<open>|\<close> separators
  and the sorting lose nothing.
\<close>

lemma serviceKey_order: "mset services' = mset services \<Longrightarrow> serviceKey services' = serviceKey services"
proof -
  assume "mset services' = mset services"
  then have "mset (map (\<lambda>s. pair_text (service_pair s)) services')
               = mset (map (\<lambda>s. pair_text (service_pair s)) services)"
    by simp
  then have "sort (map (\<lambda>s. pair_text (service_pair s)) services')
               = sort (map (\<lambda>s. pair_text (service_pair s)) services)"
    by (simp only: sort_eq_iff_mset)
  then show ?thesis
    by (simp add: serviceKey_def)
qed

lemma key_eq_iff:
  assumes "plain_links links" and "plain_services services"
  shows "stServiceKey links = serviceKey services \<longleftrightarrow>
           mset (map link_pair links) = mset (map service_pair services)"
proof -
  let ?a = "map (\<lambda>l. pair_text (link_pair l)) links"
  let ?b = "map (\<lambda>s. pair_text (service_pair s)) services"
  have pl: "\<forall>p \<in># mset (map link_pair links). plain_pair p"
    and ps: "\<forall>p \<in># mset (map service_pair services). plain_pair p"
    using assms by (auto simp: plain_links_def plain_services_def list_all_iff)
  have ok: "\<forall>x \<in> set (sort ?a). CHR ''|'' \<notin> set x \<and> x \<noteq> []"
    "\<forall>x \<in> set (sort ?b). CHR ''|'' \<notin> set x \<and> x \<noteq> []"
    using pl ps by (auto simp: pair_text_no_bar pair_text_not_Nil)
  have "stServiceKey links = serviceKey services \<longleftrightarrow> sort ?a = sort ?b"
    unfolding stServiceKey_def serviceKey_def using join_bar_inj [OF ok] by auto
  also have "\<dots> \<longleftrightarrow> mset ?a = mset ?b"
    by (rule sort_eq_iff_mset)
  also have "\<dots> \<longleftrightarrow> image_mset pair_text (mset (map link_pair links))
                      = image_mset pair_text (mset (map service_pair services))"
    by (simp add: multiset.map_comp comp_def)
  also have "\<dots> \<longleftrightarrow> mset (map link_pair links) = mset (map service_pair services)"
    using image_mset_pair_text [OF pl ps] by auto
  finally show ?thesis .
qed

lemma subscriptionMatches_exact:
  assumes "plain_services services"
    and "case sub_balanceContainer st of None \<Rightarrow> True | Some links \<Rightarrow> plain_links links"
  shows "subscriptionMatches parseFloat services cost st \<longleftrightarrow> exactMatch parseFloat services cost st"
  using assms
  by (auto simp: subscriptionMatches_def exactMatch_def key_eq_iff Let_def split: option.splits)

text \<open>
  A session count that is a string with the separators in it prints as the key of
  another composition: a single service whose count is the text of a count, a \<open>|\<close> and the
  key of a second service has the key of the two services together.
\<close>

lemma text_count_has_key_of_other_composition:
  assumes "pair_text (service_pair s1) \<le> pair_text (service_pair s2)"
    and "js_oro (si_serviceId s) (si_id s) = fst (service_pair s1)"
    and "si_sessionCount s
           = Some (Str (js_text (snd (service_pair s1)) @ ''|'' @ pair_text (service_pair s2)))"
  shows "serviceKey [s] = serviceKey [s1, s2]"
proof -
  have "sort [pair_text (service_pair s1), pair_text (service_pair s2)]
          = [pair_text (service_pair s1), pair_text (service_pair s2)]"
    using assms(1) by simp
  then have two: "serviceKey [s1, s2]
      = pair_text (service_pair s1) @ ''|'' @ pair_text (service_pair s2)"
    by (simp add: serviceKey_def)
  have count: "js_oro (si_sessionCount s) x
      = Some (Str (js_text (snd (service_pair s1)) @ ''|'' @ pair_text (service_pair s2)))" for x
    by (simp add: assms(3) js_oro_def)
  have "service_pair s
      = (fst (service_pair s1),
         Some (Str (js_text (snd (service_pair s1)) @ ''|'' @ pair_text (service_pair s2))))"
    by (simp only: service_pair_def [of s] assms(2) count)
  then have "serviceKey [s]
      = js_text (fst (service_pair s1)) @ '':'' @ js_text (snd (service_pair s1)) @ ''|''
          @ pair_text (service_pair s2)"
    by (simp add: serviceKey_def pair_text_def [of "(a, b)" for a b] js_text_def)
  with two show ?thesis
    by (simp add: pair_text_def [of "service_pair s1"])
qed

subsection \<open>What the search finds\<close>

lemma findSubscriptionType_Some:
  "findSubscriptionType parseFloat table services cost pt = Some st \<Longrightarrow>
     st \<in> set table \<and> subscriptionMatches parseFloat services cost st"
  unfolding findSubscriptionType_def
  by (auto simp: find_Some_iff)

lemma findSubscriptionType_None:
  "findSubscriptionType parseFloat table services cost pt = None \<longleftrightarrow>
     (\<forall>st \<in> set table. \<not> subscriptionMatches parseFloat services cost st)"
  unfolding findSubscriptionType_def
  by (auto simp: find_None_iff)

lemma subscriptionMatches_cost:
  "subscriptionMatches parseFloat services cost st \<Longrightarrow> parseFloat (sub_cost st) = cost"
  by (auto simp: subscriptionMatches_def Let_def split: if_splits)

lemma subscriptionMatches_order:
  assumes "mset services' = mset services"
  shows "subscriptionMatches parseFloat services' cost st
           = subscriptionMatches parseFloat services cost st"
  unfolding subscriptionMatches_def serviceKey_order [OF assms] by (rule refl)

lemma findSubscriptionType_order:
  assumes "mset services' = mset services"
  shows "findSubscriptionType parseFloat table services' cost pt'
           = findSubscriptionType parseFloat table services cost pt"
proof -
  have "subscriptionMatches parseFloat services' cost = subscriptionMatches parseFloat services cost"
    by (rule ext) (rule subscriptionMatches_order [OF assms])
  then show ?thesis
    by (simp add: findSubscriptionType_def)
qed

text \<open>
  The search never returns a record whose stored cost does not read as the requested
  cost: a cost that no stored decimal reads as is never found.
\<close>

lemma unreadable_cost_never_found:
  assumes "\<forall>st \<in> set table. parseFloat (sub_cost st) \<noteq> cost"
  shows "findSubscriptionType parseFloat table services cost pt = None"
  using assms by (auto simp: findSubscriptionType_None dest: subscriptionMatches_cost)

lemma replaced_element_mset:
  assumes "i < length xs" and "y \<noteq> xs ! i"
  shows "mset (xs[i := y]) \<noteq> mset xs"
proof
  assume eq: "mset (xs[i := y]) = mset xs"
  have "count (mset (xs[i := y])) y = count (add_mset y (mset xs - {#xs ! i#})) y"
    using assms(1) by (simp add: mset_update)
  also have "\<dots> = Suc (count (mset xs) y)"
    using assms(2) by simp
  finally show False
    using eq by simp
qed

lemma service_pair_sessionCount:
  assumes "0 < k"
  shows "snd (service_pair (s\<lparr>si_sessionCount := Some (Num k)\<rparr>)) = Some (Num k)"
  using assms by (simp add: service_pair_def js_oro_def)

text \<open>
  A record that matches a request of numbers no longer matches when one service's
  session count is replaced by a different one (session counts being positive: the code
  reads \<^verbatim>\<open>sessionCount || count || 10\<close>, so a count of 0 reads as missing).
\<close>

lemma changed_sessionCount_breaks_match:
  assumes m: "subscriptionMatches parseFloat services cost st"
    and plain: "plain_services services"
      "case sub_balanceContainer st of None \<Rightarrow> True | Some links \<Rightarrow> plain_links links"
    and i: "i < length services"
    and k: "si_sessionCount (services ! i) = Some (Num k)" "0 < k" "0 < k'" "k' \<noteq> k"
  shows "\<not> subscriptionMatches parseFloat
            (services[i := (services ! i)\<lparr>si_sessionCount := Some (Num k')\<rparr>]) cost st"
proof
  let ?s' = "(services ! i)\<lparr>si_sessionCount := Some (Num k')\<rparr>"
  assume m': "subscriptionMatches parseFloat (services[i := ?s']) cost st"
  have first: "fst (service_pair ?s') = fst (service_pair (services ! i))"
    by (simp add: service_pair_def)
  have second: "snd (service_pair ?s') = Some (Num k')"
    using k(3) by (rule service_pair_sessionCount)
  have old: "plain_pair (service_pair (services ! i))"
    using plain(1) i by (simp add: plain_services_def list_all_length)
  have new: "plain_pair (service_pair ?s')"
    using old by (simp add: plain_pair_def first second plain_def)
  have plain': "plain_services (services[i := ?s'])"
    using plain(1) new
    by (auto simp: plain_services_def list_all_iff dest!: set_update_subset_insert [THEN subsetD])
  from m have e: "exactMatch parseFloat services cost st"
    by (simp add: subscriptionMatches_exact [OF plain])
  from m' have e': "exactMatch parseFloat (services[i := ?s']) cost st"
    by (simp add: subscriptionMatches_exact [OF plain' plain(2)])
  from e e' have "mset (map service_pair (services[i := ?s'])) = mset (map service_pair services)"
    by (auto simp: exactMatch_def simp del: mset_map split: option.splits)
  then have eq: "mset ((map service_pair services)[i := service_pair ?s']) = mset (map service_pair services)"
    by (simp add: map_update del: mset_map)
  have "snd (service_pair (services ! i)) = Some (Num k)"
    using k(1,2) by (simp add: service_pair_def js_oro_def)
  with second have "service_pair ?s' \<noteq> map service_pair services ! i"
    using i k(4) by auto
  with i have "mset ((map service_pair services)[i := service_pair ?s']) \<noteq> mset (map service_pair services)"
    by (intro replaced_element_mset) simp_all
  with eq show False by simp
qed

lemma find_append_None: "find P xs = None \<Longrightarrow> find P (xs @ ys) = find P ys"
  by (induction xs) (auto split: if_splits)

lemma find_replaced:
  "find P xs = None \<Longrightarrow> P item \<Longrightarrow> \<exists>r \<in> set xs. Q r \<Longrightarrow>
     find P (map (\<lambda>r. if Q r then item else r) xs) = Some item"
  by (induction xs) (auto split: if_splits)

section \<open>Properties of the confirmation route\<close>

subsection \<open>The steps of the handler\<close>

lemma resolveClient_Inl: "resolveClient env db phone email = Inl r \<Longrightarrow> r = (db, Status_500)"
  by (auto simp: resolveClient_def Let_def split: if_splits option.splits)

lemma resolveClient_Inr:
  "resolveClient env db phone email = Inr (db1, client) \<Longrightarrow>
     db_sales db1 = db_sales db \<and> db_saleSeq db1 = db_saleSeq db
     \<and> db_subscriptionTypes db1 = db_subscriptionTypes db"
  by (auto simp: resolveClient_def Let_def split: if_splits option.splits)

lemma upsert_table:
  assumes "upsertSubscriptionType env db y = Some (db1, st)"
  shows "db_subscriptionTypes db1 =
           (case find (\<lambda>r. sub_yclientsId r = yc_id y) (db_subscriptionTypes db) of
              None \<Rightarrow> db_subscriptionTypes db @ [st]
            | Some old \<Rightarrow> map (\<lambda>r. if sub_yclientsId r = yc_id y then st else r)
                            (db_subscriptionTypes db))"
  using assms by (auto simp: upsertSubscriptionType_def Let_def split: option.splits)

lemma upsert_row:
  assumes "upsertSubscriptionType env db y = Some (db1, st)"
  shows "env_storeDecimal env (yc_cost y) = Some (sub_cost st) \<and> sub_yclientsId st = yc_id y
      \<and> sub_title st = yc_title y \<and> sub_balanceContainer st = yc_balance_container y
      \<and> db_sales db1 = db_sales db \<and> db_saleSeq db1 = db_saleSeq db
      \<and> (find (\<lambda>r. sub_yclientsId r = yc_id y) (db_subscriptionTypes db) = None \<longrightarrow>
           sub_id st = db_subscriptionTypeSeq db)"
proof (cases "find (\<lambda>r. sub_yclientsId r = yc_id y) (db_subscriptionTypes db)")
  case None
  with assms show ?thesis
    by (auto simp: upsertSubscriptionType_def Let_def split: option.splits)
next
  case (Some old)
  then have "sub_yclientsId old = yc_id y"
    by (auto simp: find_Some_iff)
  with assms Some show ?thesis
    by (auto simp: upsertSubscriptionType_def Let_def split: option.splits)
qed

lemma upsert_member:
  assumes "upsertSubscriptionType env db y = Some (db1, st)"
  shows "st \<in> set (db_subscriptionTypes db1)"
proof (cases "find (\<lambda>r. sub_yclientsId r = yc_id y) (db_subscriptionTypes db)")
  case None
  then show ?thesis
    using upsert_table [OF assms] by simp
next
  case (Some old)
  then have "old \<in> set (db_subscriptionTypes db)" "sub_yclientsId old = yc_id y"
    by (auto simp: find_Some_iff)
  with Some show ?thesis
    using upsert_table [OF assms] by force
qed

lemma upsert_Some:
  assumes "upsertSubscriptionType env db y = Some (db1, st)"
  shows "env_storeDecimal env (yc_cost y) = Some (sub_cost st)"
    and "sub_yclientsId st = yc_id y" and "sub_title st = yc_title y"
    and "sub_balanceContainer st = yc_balance_container y"
    and "st \<in> set (db_subscriptionTypes db1)"
    and "db_sales db1 = db_sales db" and "db_saleSeq db1 = db_saleSeq db"
    and "find (\<lambda>r. sub_yclientsId r = yc_id y) (db_subscriptionTypes db) = None \<Longrightarrow>
           db_subscriptionTypes db1 = db_subscriptionTypes db @ [st]
           \<and> sub_id st = db_subscriptionTypeSeq db"
  using upsert_row [OF assms] upsert_member [OF assms] upsert_table [OF assms]
  by simp_all

lemma resolveSubscriptionType_Inl:
  "resolveSubscriptionType env db calculation = Inl r \<Longrightarrow> r = (db, Status_500)"
  by (auto simp: resolveSubscriptionType_def split: if_splits option.splits sum.splits)

lemma resolveSubscriptionType_cases:
  assumes "resolveSubscriptionType env db calculation = Inr (db2, st)"
  obtains (found) "db2 = db"
      "findSubscriptionType (env_parseFloat env) (db_subscriptionTypes db) (rq_services calculation)
         (rq_finalCost calculation) (rq_packageType calculation) = Some st"
    | (created) y where
      "findSubscriptionType (env_parseFloat env) (db_subscriptionTypes db) (rq_services calculation)
         (rq_finalCost calculation) (rq_packageType calculation) = None"
      "env_createSubscriptionType env (createPayload env calculation) = Inr y"
      "upsertSubscriptionType env db y = Some (db2, st)"
  using assms
  by (auto simp: resolveSubscriptionType_def split: if_splits option.splits sum.splits)

lemma resolveSubscriptionType_Inr:
  assumes "resolveSubscriptionType env db calculation = Inr (db2, st)"
  shows "db_sales db2 = db_sales db" and "db_saleSeq db2 = db_saleSeq db"
    and "st \<in> set (db_subscriptionTypes db2)"
proof -
  from assms have "db_sales db2 = db_sales db \<and> db_saleSeq db2 = db_saleSeq db
      \<and> st \<in> set (db_subscriptionTypes db2)"
  proof (cases rule: resolveSubscriptionType_cases)
    case found
    then show ?thesis
      using findSubscriptionType_Some by auto
  next
    case (created y)
    then show ?thesis
      by (simp add: upsert_Some)
  qed
  then show "db_sales db2 = db_sales db" and "db_saleSeq db2 = db_saleSeq db"
    and "st \<in> set (db_subscriptionTypes db2)"
    by simp_all
qed

lemma saleOf_Some:
  assumes "saleOf env newId client st calculation = Some s"
  shows "sale_id s = newId" and "sale_subscriptionTypeId s = sub_id st"
    and "env_storeDecimal env (rq_baseCost calculation) = Some (sale_baseCost s)"
    and "env_storeDecimal env (rq_finalCost calculation) = Some (sale_finalCost s)"
    and "env_storeDecimal env (rq_totalSavings calculation) = Some (sale_totalSavings s)"
    and "env_storeDecimal env (rq_downPayment calculation) = Some (sale_downPayment s)"
    and "sale_installmentMonths s =
           (case rq_installmentMonths calculation of
              None \<Rightarrow> None | Some n \<Rightarrow> if n = 0 then None else env_storeInteger env n)"
    and "sale_monthlyPayment s =
           (case rq_monthlyPayment calculation of None \<Rightarrow> None | Some m \<Rightarrow> env_storeDecimal env m)"
    and "sale_appliedDiscounts s = rq_appliedDiscounts calculation"
  using assms
  by (auto simp: saleOf_def bind_eq_Some_conv split: option.splits if_splits)

lemma createSale_cases:
  "createSale env db client st calculation = (db', resp) \<Longrightarrow>
     (resp = Status_500 \<and> db' = db)
     \<or> (\<exists>s. saleOf env (db_saleSeq db) client st calculation = Some s
          \<and> resp = Json_success (sub_title st) (db_saleSeq db)
          \<and> db_sales db' = db_sales db @ [s]
          \<and> db_subscriptionTypes db' = db_subscriptionTypes db)"
  by (auto simp: createSale_def saleOf_Some(1) split: if_splits option.splits)

lemma route_cases:
  assumes "subscription_route env db req = (db', resp)"
  shows "((resp = Status_500 \<or> resp = Status_400) \<and> db_sales db' = db_sales db)
     \<or> (\<exists>phone email db1 client db2 st s.
           clientSchema_parse env req = Some (phone, email)
           \<and> resolveClient env db phone email = Inr (db1, client)
           \<and> resolveSubscriptionType env db1 (req_calculation req) = Inr (db2, st)
           \<and> st \<in> set (db_subscriptionTypes db')
           \<and> saleOf env (db_saleSeq db) client st (req_calculation req) = Some s
           \<and> resp = Json_success (sub_title st) (db_saleSeq db)
           \<and> db_sales db' = db_sales db @ [s])"
proof (cases "clientSchema_parse env req")
  case None
  with assms show ?thesis
    by (simp add: subscription_route_def)
next
  case (Some pe)
  obtain phone email where pe: "pe = (phone, email)"
    by (cases pe)
  show ?thesis
  proof (cases "resolveClient env db phone email")
    case (Inl r)
    then have "r = (db, Status_500)"
      by (rule resolveClient_Inl)
    with assms Some pe Inl show ?thesis
      by (simp add: subscription_route_def)
  next
    case (Inr dc)
    obtain db1 client where dc: "dc = (db1, client)"
      by (cases dc)
    note c1 = resolveClient_Inr [OF Inr [unfolded dc]]
    show ?thesis
    proof (cases "env_fails env GetYclientsConfig \<or> \<not> env_yclientsConfig env
                  \<or> env_fails env GetAllServices")
      case True
      with assms Some pe Inr dc c1 show ?thesis
        by (auto simp: subscription_route_def split: if_splits)
    next
      case False
      show ?thesis
      proof (cases "resolveSubscriptionType env db1 (req_calculation req)")
        case (Inl r)
        then have "r = (db1, Status_500)"
          by (rule resolveSubscriptionType_Inl)
        with assms Some pe Inr dc c1 False Inl show ?thesis
          by (simp add: subscription_route_def)
      next
        case r: (Inr ds)
        obtain db2 st where ds: "ds = (db2, st)"
          by (cases ds)
        note c2 = resolveSubscriptionType_Inr [OF r [unfolded ds]]
        from assms Some pe Inr dc False r ds
        have cs: "createSale env db2 client st (req_calculation req) = (db', resp)"
          by (simp add: subscription_route_def)
        from createSale_cases [OF cs] show ?thesis
        proof
          assume "resp = Status_500 \<and> db' = db2"
          with c1 c2 show ?thesis by simp
        next
          assume "\<exists>s. saleOf env (db_saleSeq db2) client st (req_calculation req) = Some s
             \<and> resp = Json_success (sub_title st) (db_saleSeq db2)
             \<and> db_sales db' = db_sales db2 @ [s]
             \<and> db_subscriptionTypes db' = db_subscriptionTypes db2"
          with c1 c2 Some pe Inr dc r ds show ?thesis
            by auto
        qed
      qed
    qed
  qed
qed

lemma route_failed_resolution:
  assumes "env_fails env GetSubscriptionTypes
     \<or> (findSubscriptionType (env_parseFloat env) (db_subscriptionTypes db)
           (rq_services (req_calculation req)) (rq_finalCost (req_calculation req))
           (rq_packageType (req_calculation req)) = None
         \<and> (env_fails env GetTemplateConfig \<or> env_fails env GenerateTitle
              \<or> isl (env_createSubscriptionType env (createPayload env (req_calculation req)))
              \<or> env_fails env UpsertSubscriptionType
              \<or> (\<exists>y. env_createSubscriptionType env (createPayload env (req_calculation req)) = Inr y
                      \<and> env_storeDecimal env (yc_cost y) = None)))"
  shows "(snd (subscription_route env db req) = Status_500
           \<or> snd (subscription_route env db req) = Status_400)
         \<and> db_sales (fst (subscription_route env db req)) = db_sales db"
proof -
  obtain db' resp where r: "subscription_route env db req = (db', resp)"
    by (cases "subscription_route env db req")
  have no: "resolveSubscriptionType env db1 (req_calculation req) \<noteq> Inr (db2, st)"
    if "db_subscriptionTypes db1 = db_subscriptionTypes db" for db1 db2 st
    using assms that
    by (auto simp: resolveSubscriptionType_def upsertSubscriptionType_def isl_def
        split: if_splits option.splits sum.splits)
  from route_cases [OF r] show ?thesis
  proof
    assume "(resp = Status_500 \<or> resp = Status_400) \<and> db_sales db' = db_sales db"
    with r show ?thesis by simp
  next
    assume "\<exists>phone email db1 client db2 st s.
           clientSchema_parse env req = Some (phone, email)
           \<and> resolveClient env db phone email = Inr (db1, client)
           \<and> resolveSubscriptionType env db1 (req_calculation req) = Inr (db2, st)
           \<and> st \<in> set (db_subscriptionTypes db')
           \<and> saleOf env (db_saleSeq db) client st (req_calculation req) = Some s
           \<and> resp = Json_success (sub_title st) (db_saleSeq db)
           \<and> db_sales db' = db_sales db @ [s]"
    then obtain phone email db1 client db2 st where
      "resolveClient env db phone email = Inr (db1, client)"
      "resolveSubscriptionType env db1 (req_calculation req) = Inr (db2, st)"
      by blast
    with no resolveClient_Inr show ?thesis
      by blast
  qed
qed

subsection \<open>Resolving the subscription type\<close>

text \<open>
  When the search finds nothing and nothing throws, the route asks the platform for a
  record with the requested cost and services and stores the platform's answer: the
  resolved record carries the platform's id, title and links and the platform's cost as
  the decimal column holds it, it is in the table, and it is a new row when the table
  had no row with that platform id.
\<close>

lemma failed_search_creates:
  assumes ok: "\<not> env_fails env GetSubscriptionTypes" "\<not> env_fails env GetTemplateConfig"
      "\<not> env_fails env GenerateTitle" "\<not> env_fails env UpsertSubscriptionType"
    and none: "findSubscriptionType (env_parseFloat env) (db_subscriptionTypes db)
           (rq_services calculation) (rq_finalCost calculation) (rq_packageType calculation) = None"
    and y: "env_createSubscriptionType env (createPayload env calculation) = Inr y"
    and stored: "env_storeDecimal env (yc_cost y) = Some cost"
  shows "\<exists>db1 st. resolveSubscriptionType env db calculation = Inr (db1, st)
      \<and> pl_cost (createPayload env calculation) = rq_finalCost calculation
      \<and> pl_services (createPayload env calculation) = servicesForYclients (rq_services calculation)
      \<and> st \<in> set (db_subscriptionTypes db1)
      \<and> sub_yclientsId st = yc_id y \<and> sub_title st = yc_title y \<and> sub_cost st = cost
      \<and> sub_balanceContainer st = yc_balance_container y
      \<and> (find (\<lambda>r. sub_yclientsId r = yc_id y) (db_subscriptionTypes db) = None \<longrightarrow>
           db_subscriptionTypes db1 = db_subscriptionTypes db @ [st]
           \<and> sub_id st = db_subscriptionTypeSeq db)"
proof -
  from stored have "\<exists>r. upsertSubscriptionType env db y = Some r"
    by (simp add: upsertSubscriptionType_def Let_def split: option.split)
  then obtain db1 st where u: "upsertSubscriptionType env db y = Some (db1, st)"
    by force
  with ok none y have "resolveSubscriptionType env db calculation = Inr (db1, st)"
    by (simp add: resolveSubscriptionType_def)
  moreover have "sub_cost st = cost"
    using upsert_Some(1) [OF u] stored by simp
  ultimately show ?thesis
    using upsert_Some(2-5,8) [OF u] by (auto simp: createPayload_def)
qed

lemma upsert_found_after:
  assumes none: "findSubscriptionType parseFloat (db_subscriptionTypes db) services cost pt = None"
    and u: "upsertSubscriptionType env db y = Some (db1, st)"
    and m: "subscriptionMatches parseFloat services cost st"
  shows "findSubscriptionType parseFloat (db_subscriptionTypes db1) services cost pt' = Some st"
proof (cases "find (\<lambda>r. sub_yclientsId r = yc_id y) (db_subscriptionTypes db)")
  case None
  then have "db_subscriptionTypes db1 = db_subscriptionTypes db @ [st]"
    using upsert_table [OF u] by simp
  with none m show ?thesis
    by (simp add: findSubscriptionType_def find_append_None)
next
  case (Some old)
  then have t: "db_subscriptionTypes db1 =
      map (\<lambda>r. if sub_yclientsId r = yc_id y then st else r) (db_subscriptionTypes db)"
    using upsert_table [OF u] by simp
  from Some have ex: "\<exists>r \<in> set (db_subscriptionTypes db). sub_yclientsId r = yc_id y"
    by (auto simp: find_Some_iff)
  from none have n: "find (subscriptionMatches parseFloat services cost) (db_subscriptionTypes db) = None"
    by (simp add: findSubscriptionType_def)
  show ?thesis
    unfolding t findSubscriptionType_def by (rule find_replaced [OF n m ex])
qed

lemma resolveSubscriptionType_found:
  assumes "\<not> env_fails env GetSubscriptionTypes"
    and "findSubscriptionType (env_parseFloat env) (db_subscriptionTypes db) (rq_services calculation)
           (rq_finalCost calculation) (rq_packageType calculation) = Some st"
  shows "resolveSubscriptionType env db calculation = Inr (db, st)"
  using assms by (simp add: resolveSubscriptionType_def)

text \<open>
  Once a confirmation has resolved its subscription type to a record that the search
  matches with the request (the stored cost reads as the requested cost and the links
  have the request's key), a later confirmation with the same services in any order and
  the same cost resolves to that same record and changes no table.
\<close>

lemma resolve_again:
  assumes r: "resolveSubscriptionType env db calculation = Inr (db1, st)"
    and m: "subscriptionMatches (env_parseFloat env) (rq_services calculation)
              (rq_finalCost calculation) st"
    and t: "db_subscriptionTypes db' = db_subscriptionTypes db1"
    and ok: "\<not> env_fails env' GetSubscriptionTypes"
    and pf: "env_parseFloat env' = env_parseFloat env"
    and same: "mset (rq_services calculation') = mset (rq_services calculation)"
      "rq_finalCost calculation' = rq_finalCost calculation"
  shows "resolveSubscriptionType env' db' calculation' = Inr (db', st)"
proof -
  have first: "findSubscriptionType (env_parseFloat env) (db_subscriptionTypes db1)
                 (rq_services calculation) (rq_finalCost calculation) (rq_packageType calculation')
               = Some st"
    using r
  proof (cases rule: resolveSubscriptionType_cases)
    case found
    then show ?thesis
      by (simp add: findSubscriptionType_def)
  next
    case (created y)
    show ?thesis
      by (rule upsert_found_after [OF created(1,3) m])
  qed
  have "findSubscriptionType (env_parseFloat env') (db_subscriptionTypes db') (rq_services calculation')
          (rq_finalCost calculation') (rq_packageType calculation') = Some st"
    unfolding t same(2) pf
    using first
      findSubscriptionType_order [OF same(1), of "env_parseFloat env" "db_subscriptionTypes db1"
        "rq_finalCost calculation" "rq_packageType calculation'" "rq_packageType calculation'"]
    by simp
  with ok show ?thesis
    by (rule resolveSubscriptionType_found)
qed

subsection \<open>The sample requests, evaluated\<close>

lemma floor_numeral_div_rat: "\<lfloor>numeral a / numeral b :: rat\<rfloor> = numeral a div numeral b"
  by (metis floor_divide_of_int_eq of_int_numeral)

lemma floor_one_div_rat: "\<lfloor>1 / numeral b :: rat\<rfloor> = 1 div numeral b"
  by (metis floor_divide_of_int_eq of_int_numeral of_int_1)

lemma scenario_columns:
  "two_decimals 20000 = Some 20000" "two_decimals 16000 = Some 16000"
  "two_decimals 4000 = Some 4000" "two_decimals 5000 = Some 5000"
  "two_decimals 5500 = Some 5500" "two_decimals 0 = Some 0" "two_decimals 16032 = Some 16032"
  "whole_number 2 = Some 2"
  "two_decimals drifted_cost = Some (56112 / 5)"
  "two_decimals drifted_discount = Some (24048 / 5)"
  by (simp_all add: two_decimals_def whole_number_def Let_def drifted_cost_def
      drifted_discount_def floor_numeral_div_rat floor_one_div_rat)

lemma drifted_cost_not_read: "(56112 / 5 :: rat) \<noteq> drifted_cost"
  by (simp add: drifted_cost_def)

lemmas route_eval = subscription_route_def clientSchema_parse_def scenario_request_def
  scenario_environment_def second_environment_def no_step_fails_def lookup_step_fails_def
  resolveClient_def empty_database_def resolveSubscriptionType_def findSubscriptionType_def
  subscriptionMatches_def createPayload_def platform_echo_def platform_down_def
  upsertSubscriptionType_def createSale_def saleOf_def Let_def scenario_request_calculation_def
  drifted_request_def scenario_columns drifted_cost_not_read exact_def

lemma scenario_route:
  "subscription_route scenario_environment empty_database scenario_request
     = (\<lparr>db_clients = [\<lparr>cl_id = 1, cl_phone = ''79001234567'', cl_email = None\<rparr>],
         db_clientSeq = 2,
         db_subscriptionTypes = [scenario_subscription_type], db_subscriptionTypeSeq = 2,
         db_sales =
           [\<lparr>sale_id = 1, sale_clientId = 1, sale_masterId = 7, sale_subscriptionTypeId = 1,
             sale_selectedServices = enrichedServices scenario_services,
             sale_selectedPackage = ''economy'', sale_baseCost = 20000, sale_finalCost = 16000,
             sale_totalSavings = 4000, sale_downPayment = 5000, sale_installmentMonths = Some 2,
             sale_monthlyPayment = Some 5500,
             sale_appliedDiscounts = [\<lparr>type = ''package'', amount = 4000\<rparr>], sale_freeZones = [],
             sale_usedCertificate = False, sale_manualGiftSessions = []\<rparr>],
         db_saleSeq = 2\<rparr>,
        Json_success ''Course 1.001'' 1)"
  by (simp add: route_eval scenario_subscription_type_def servicesForYclients_def
      scenario_services_def js_oro_def)

lemma scenario_route_response:
  "snd (subscription_route scenario_environment empty_database scenario_request)
     = Json_success ''Course 1.001'' 1"
  by (simp add: scenario_route)

text \<open>
  The scenario's request, whose cost of 16000 the decimal column holds as it is, confirmed
  a second time: the search finds the record of the first confirmation, the platform is
  not asked again and the table keeps its one row.
\<close>

lemma scenario_key: "stServiceKey (the (sub_balanceContainer scenario_subscription_type))
    = serviceKey scenario_services"
proof -
  have "plain_links (the (sub_balanceContainer scenario_subscription_type))"
    and "plain_services scenario_services"
    by (simp_all add: plain_links_def plain_services_def plain_pair_def plain_def link_pair_def
        service_pair_def js_oro_def scenario_subscription_type_def scenario_services_def)
  then show ?thesis
    by (simp add: key_eq_iff)
       (simp add: link_pair_def service_pair_def js_oro_def scenario_subscription_type_def
          scenario_services_def)
qed

lemma scenario_second_confirmation:
  "map sub_yclientsId
     (db_subscriptionTypes
        (fst (subscription_route second_environment
                (fst (subscription_route scenario_environment empty_database scenario_request))
                scenario_request))) = [501]
   \<and> map sale_subscriptionTypeId
       (db_sales
          (fst (subscription_route second_environment
                  (fst (subscription_route scenario_environment empty_database scenario_request))
                  scenario_request))) = [1, 1]"
proof -
  have m: "subscriptionMatches exact scenario_services 16000 scenario_subscription_type"
    using scenario_key
    by (simp add: subscriptionMatches_def exact_def)
       (simp add: scenario_subscription_type_def)
  show ?thesis
    unfolding scenario_route
    by (simp add: subscription_route_def clientSchema_parse_def scenario_request_def
        second_environment_def scenario_environment_def no_step_fails_def resolveClient_def
        resolveSubscriptionType_def findSubscriptionType_def m scenario_request_calculation_def
        createSale_def saleOf_def scenario_columns)
       (simp add: scenario_subscription_type_def)
qed

subsection \<open>A course whose final cost has more than two decimals\<close>

lemma drifted_route:
  "subscription_route scenario_environment empty_database drifted_request
     = (\<lparr>db_clients = [\<lparr>cl_id = 1, cl_phone = ''79001234567'', cl_email = None\<rparr>],
         db_clientSeq = 2,
         db_subscriptionTypes =
           [\<lparr>sub_id = 1, sub_yclientsId = 501, sub_title = ''Course 1.001'', sub_cost = 56112 / 5,
             sub_balanceContainer =
               Some [\<lparr>ln_service = Some (Num 1), ln_service_id = None, ln_count = Some (Num 16)\<rparr>]\<rparr>],
         db_subscriptionTypeSeq = 2,
         db_sales =
           [\<lparr>sale_id = 1, sale_clientId = 1, sale_masterId = 7, sale_subscriptionTypeId = 1,
             sale_selectedServices = enrichedServices (rq_services (req_calculation drifted_request)),
             sale_selectedPackage = ''vip'', sale_baseCost = 16032, sale_finalCost = 56112 / 5,
             sale_totalSavings = 24048 / 5, sale_downPayment = 56112 / 5,
             sale_installmentMonths = None, sale_monthlyPayment = Some 0,
             sale_appliedDiscounts = [\<lparr>type = ''package'', amount = drifted_discount\<rparr>],
             sale_freeZones = [], sale_usedCertificate = False, sale_manualGiftSessions = []\<rparr>],
         db_saleSeq = 2\<rparr>,
        Json_success ''Course 1.001'' 1)"
  by (simp add: route_eval servicesForYclients_def js_oro_def)

lemma nearest_double_not_read:
  "(6169579645776691 / 549755813888 :: rat) \<noteq> drifted_cost"
  "drifted_cost * 549755813888 \<noteq> 6169579645776691"
  "drifted_cost * 5 \<noteq> 56112"
  by (simp_all add: drifted_cost_def)

lemma drifted_search:
  "findSubscriptionType exact
     (db_subscriptionTypes (fst (subscription_route scenario_environment empty_database drifted_request)))
     (rq_services (req_calculation drifted_request)) drifted_cost ''vip'' = None"
  "findSubscriptionType read_decimal
     (db_subscriptionTypes (fst (subscription_route scenario_environment empty_database drifted_request)))
     (rq_services (req_calculation drifted_request)) drifted_cost ''vip'' = None"
  unfolding drifted_route
  by (simp_all add: findSubscriptionType_def subscriptionMatches_def exact_def read_decimal_def
      drifted_cost_not_read nearest_double_not_read)

lemma drifted_route_again:
  "p = exact \<or> p = read_decimal \<Longrightarrow>
   subscription_route (second_environment\<lparr>env_parseFloat := p\<rparr>)
     (fst (subscription_route scenario_environment empty_database drifted_request)) drifted_request
     = (\<lparr>db_clients = [\<lparr>cl_id = 1, cl_phone = ''79001234567'', cl_email = None\<rparr>],
         db_clientSeq = 2,
         db_subscriptionTypes =
           [\<lparr>sub_id = 1, sub_yclientsId = 501, sub_title = ''Course 1.001'', sub_cost = 56112 / 5,
             sub_balanceContainer =
               Some [\<lparr>ln_service = Some (Num 1), ln_service_id = None, ln_count = Some (Num 16)\<rparr>]\<rparr>,
            \<lparr>sub_id = 2, sub_yclientsId = 502, sub_title = ''Course 1.002'', sub_cost = 56112 / 5,
             sub_balanceContainer =
               Some [\<lparr>ln_service = Some (Num 1), ln_service_id = None, ln_count = Some (Num 16)\<rparr>]\<rparr>],
         db_subscriptionTypeSeq = 3,
         db_sales =
           [\<lparr>sale_id = 1, sale_clientId = 1, sale_masterId = 7, sale_subscriptionTypeId = 1,
             sale_selectedServices = enrichedServices (rq_services (req_calculation drifted_request)),
             sale_selectedPackage = ''vip'', sale_baseCost = 16032, sale_finalCost = 56112 / 5,
             sale_totalSavings = 24048 / 5, sale_downPayment = 56112 / 5,
             sale_installmentMonths = None, sale_monthlyPayment = Some 0,
             sale_appliedDiscounts = [\<lparr>type = ''package'', amount = drifted_discount\<rparr>],
             sale_freeZones = [], sale_usedCertificate = False, sale_manualGiftSessions = []\<rparr>,
            \<lparr>sale_id = 2, sale_clientId = 1, sale_masterId = 7, sale_subscriptionTypeId = 2,
             sale_selectedServices = enrichedServices (rq_services (req_calculation drifted_request)),
             sale_selectedPackage = ''vip'', sale_baseCost = 16032, sale_finalCost = 56112 / 5,
             sale_totalSavings = 24048 / 5, sale_downPayment = 56112 / 5,
             sale_installmentMonths = None, sale_monthlyPayment = Some 0,
             sale_appliedDiscounts = [\<lparr>type = ''package'', amount = drifted_discount\<rparr>],
             sale_freeZones = [], sale_usedCertificate = False, sale_manualGiftSessions = []\<rparr>],
         db_saleSeq = 3\<rparr>,
        Json_success ''Course 1.002'' 2)"
  unfolding drifted_route
  by (auto simp: route_eval servicesForYclients_def js_oro_def read_decimal_def
      nearest_double_not_read)

lemma second_environment_parseFloat:
  "second_environment\<lparr>env_parseFloat := exact\<rparr> = second_environment"
  by (simp add: second_environment_def scenario_environment_def)

text \<open>
  Claim C3. Two confirmations with the same composition and the same final cost do not
  always resolve to the same record. The course of one service of 1002 with sixteen
  sessions in a package with a discount of 0.3 costs 11222.400000000001. The first
  confirmation finds nothing, creates record 501 on the platform and stores it; the
  decimal column holds its cost as 11222.40. The search of the second, identical
  confirmation reads that cost as 11222.4 (the number itself, or the double nearest to
  it), which is not the requested cost: it finds nothing, record 502 is created, and the
  two sales reference two subscription types.
\<close>

theorem identical_confirmation_creates_again:
  "snd (subscription_route scenario_environment empty_database drifted_request)
     = Json_success ''Course 1.001'' 1
   \<and> map sub_cost
       (db_subscriptionTypes (fst (subscription_route scenario_environment empty_database drifted_request)))
       = [56112 / 5]
   \<and> rq_finalCost (req_calculation drifted_request) = drifted_cost
   \<and> findSubscriptionType exact
       (db_subscriptionTypes (fst (subscription_route scenario_environment empty_database drifted_request)))
       (rq_services (req_calculation drifted_request)) drifted_cost ''vip'' = None
   \<and> findSubscriptionType read_decimal
       (db_subscriptionTypes (fst (subscription_route scenario_environment empty_database drifted_request)))
       (rq_services (req_calculation drifted_request)) drifted_cost ''vip'' = None
   \<and> snd (subscription_route second_environment
            (fst (subscription_route scenario_environment empty_database drifted_request))
            drifted_request) = Json_success ''Course 1.002'' 2
   \<and> map sub_yclientsId
       (db_subscriptionTypes
          (fst (subscription_route second_environment
                  (fst (subscription_route scenario_environment empty_database drifted_request))
                  drifted_request))) = [501, 502]
   \<and> map sale_subscriptionTypeId
       (db_sales
          (fst (subscription_route second_environment
                  (fst (subscription_route scenario_environment empty_database drifted_request))
                  drifted_request))) = [1, 2]
   \<and> map sub_yclientsId
       (db_subscriptionTypes
          (fst (subscription_route (second_environment\<lparr>env_parseFloat := read_decimal\<rparr>)
                  (fst (subscription_route scenario_environment empty_database drifted_request))
                  drifted_request))) = [501, 502]"
proof -
  have a: "snd (subscription_route scenario_environment empty_database drifted_request)
             = Json_success ''Course 1.001'' 1"
    and b: "map sub_cost
       (db_subscriptionTypes (fst (subscription_route scenario_environment empty_database drifted_request)))
       = [56112 / 5]"
    by (simp_all add: drifted_route)
  have c: "rq_finalCost (req_calculation drifted_request) = drifted_cost"
    by (simp add: drifted_request_def)
  note again = drifted_route_again [of exact, unfolded second_environment_parseFloat]
  have d: "snd (subscription_route second_environment
            (fst (subscription_route scenario_environment empty_database drifted_request))
            drifted_request) = Json_success ''Course 1.002'' 2"
    and e: "map sub_yclientsId
       (db_subscriptionTypes
          (fst (subscription_route second_environment
                  (fst (subscription_route scenario_environment empty_database drifted_request))
                  drifted_request))) = [501, 502]"
    and f: "map sale_subscriptionTypeId
       (db_sales
          (fst (subscription_route second_environment
                  (fst (subscription_route scenario_environment empty_database drifted_request))
                  drifted_request))) = [1, 2]"
    by (simp_all add: again)
  have g: "map sub_yclientsId
       (db_subscriptionTypes
          (fst (subscription_route (second_environment\<lparr>env_parseFloat := read_decimal\<rparr>)
                  (fst (subscription_route scenario_environment empty_database drifted_request))
                  drifted_request))) = [501, 502]"
    by (simp add: drifted_route_again [of read_decimal])
  from a b c drifted_search d e f g show ?thesis
    by (intro conjI)
qed

subsection \<open>Failure of the resolution, and what a sale stores\<close>

text \<open>
  Claim C8. When the lookup of the subscription types throws, or no stored record
  matches and the title generation, the creation on the platform or the local upsert
  throws (the upsert also when the database rejects the platform's cost), the request
  ends with an error status and the table of sales is unchanged. Every error response
  leaves the sales unchanged; a success response means that exactly one sale was added,
  and it references a subscription type that is in the table.
\<close>

theorem failed_resolution_persists_no_sale:
  "((env_fails env GetSubscriptionTypes
      \<or> (findSubscriptionType (env_parseFloat env) (db_subscriptionTypes db)
            (rq_services (req_calculation req)) (rq_finalCost (req_calculation req))
            (rq_packageType (req_calculation req)) = None
          \<and> (env_fails env GetTemplateConfig \<or> env_fails env GenerateTitle
               \<or> isl (env_createSubscriptionType env (createPayload env (req_calculation req)))
               \<or> env_fails env UpsertSubscriptionType
               \<or> (\<exists>y. env_createSubscriptionType env (createPayload env (req_calculation req)) = Inr y
                       \<and> env_storeDecimal env (yc_cost y) = None))))
     \<longrightarrow> (snd (subscription_route env db req) = Status_500
            \<or> snd (subscription_route env db req) = Status_400)
         \<and> db_sales (fst (subscription_route env db req)) = db_sales db)
   \<and> (snd (subscription_route env db req) = Status_500
        \<or> snd (subscription_route env db req) = Status_400
       \<longrightarrow> db_sales (fst (subscription_route env db req)) = db_sales db)
   \<and> (snd (subscription_route env db req) = Json_success title saleId
       \<longrightarrow> db_sales (fst (subscription_route env db req))
             = db_sales db @ [last (db_sales (fst (subscription_route env db req)))]
           \<and> (\<exists>st \<in> set (db_subscriptionTypes (fst (subscription_route env db req))).
                 sale_subscriptionTypeId (last (db_sales (fst (subscription_route env db req)))) = sub_id st
                 \<and> sub_title st = title))"
proof -
  obtain db' resp where r: "subscription_route env db req = (db', resp)"
    by (cases "subscription_route env db req")
  note cases = route_cases [OF r]
  have a: "(env_fails env GetSubscriptionTypes
      \<or> (findSubscriptionType (env_parseFloat env) (db_subscriptionTypes db)
            (rq_services (req_calculation req)) (rq_finalCost (req_calculation req))
            (rq_packageType (req_calculation req)) = None
          \<and> (env_fails env GetTemplateConfig \<or> env_fails env GenerateTitle
               \<or> isl (env_createSubscriptionType env (createPayload env (req_calculation req)))
               \<or> env_fails env UpsertSubscriptionType
               \<or> (\<exists>y. env_createSubscriptionType env (createPayload env (req_calculation req)) = Inr y
                       \<and> env_storeDecimal env (yc_cost y) = None))))
     \<longrightarrow> (snd (subscription_route env db req) = Status_500
            \<or> snd (subscription_route env db req) = Status_400)
         \<and> db_sales (fst (subscription_route env db req)) = db_sales db"
    using route_failed_resolution by blast
  have b: "snd (subscription_route env db req) = Status_500
        \<or> snd (subscription_route env db req) = Status_400
       \<longrightarrow> db_sales (fst (subscription_route env db req)) = db_sales db"
    using cases by (auto simp: r)
  have c: "snd (subscription_route env db req) = Json_success title saleId
       \<longrightarrow> db_sales (fst (subscription_route env db req))
             = db_sales db @ [last (db_sales (fst (subscription_route env db req)))]
           \<and> (\<exists>st \<in> set (db_subscriptionTypes (fst (subscription_route env db req))).
                 sale_subscriptionTypeId (last (db_sales (fst (subscription_route env db req)))) = sub_id st
                 \<and> sub_title st = title)"
  proof (intro impI)
    assume ok: "snd (subscription_route env db req) = Json_success title saleId"
    from cases ok r obtain client st s where
      s: "st \<in> set (db_subscriptionTypes db')"
        "saleOf env (db_saleSeq db) client st (req_calculation req) = Some s"
        "resp = Json_success (sub_title st) (db_saleSeq db)"
        "db_sales db' = db_sales db @ [s]"
      by auto
    have "sale_subscriptionTypeId s = sub_id st"
      by (rule saleOf_Some(2) [OF s(2)])
    with s ok r show "db_sales (fst (subscription_route env db req))
             = db_sales db @ [last (db_sales (fst (subscription_route env db req)))]
           \<and> (\<exists>st \<in> set (db_subscriptionTypes (fst (subscription_route env db req))).
                 sale_subscriptionTypeId (last (db_sales (fst (subscription_route env db req)))) = sub_id st
                 \<and> sub_title st = title)"
      by auto
  qed
  from a b c show ?thesis by blast
qed

theorem failed_resolution_persists_no_sale_witness:
  "env_fails (scenario_environment\<lparr>env_fails := lookup_step_fails\<rparr>) GetSubscriptionTypes
   \<and> snd (subscription_route (scenario_environment\<lparr>env_fails := lookup_step_fails\<rparr>)
            empty_database scenario_request) = Status_500
   \<and> db_sales (fst (subscription_route (scenario_environment\<lparr>env_fails := lookup_step_fails\<rparr>)
            empty_database scenario_request)) = db_sales empty_database
   \<and> findSubscriptionType
        (env_parseFloat (scenario_environment\<lparr>env_createSubscriptionType := platform_down\<rparr>))
        (db_subscriptionTypes empty_database)
        (rq_services (req_calculation scenario_request)) (rq_finalCost (req_calculation scenario_request))
        (rq_packageType (req_calculation scenario_request)) = None
   \<and> isl (env_createSubscriptionType (scenario_environment\<lparr>env_createSubscriptionType := platform_down\<rparr>)
            (createPayload (scenario_environment\<lparr>env_createSubscriptionType := platform_down\<rparr>)
               (req_calculation scenario_request)))
   \<and> snd (subscription_route (scenario_environment\<lparr>env_createSubscriptionType := platform_down\<rparr>)
            empty_database scenario_request) = Status_500
   \<and> db_sales (fst (subscription_route (scenario_environment\<lparr>env_createSubscriptionType := platform_down\<rparr>)
            empty_database scenario_request)) = db_sales empty_database
   \<and> snd (subscription_route scenario_environment empty_database scenario_request)
       = Json_success ''Course 1.001'' 1
   \<and> db_sales (fst (subscription_route scenario_environment empty_database scenario_request))
       = db_sales empty_database
           @ [last (db_sales (fst (subscription_route scenario_environment empty_database scenario_request)))]"
proof -
  let ?E1 = "scenario_environment\<lparr>env_fails := lookup_step_fails\<rparr>"
  let ?E2 = "scenario_environment\<lparr>env_createSubscriptionType := platform_down\<rparr>"
  have h1: "env_fails ?E1 GetSubscriptionTypes"
    by (simp add: lookup_step_fails_def)
  have h2: "findSubscriptionType (env_parseFloat ?E2) (db_subscriptionTypes empty_database)
        (rq_services (req_calculation scenario_request)) (rq_finalCost (req_calculation scenario_request))
        (rq_packageType (req_calculation scenario_request)) = None"
    by (simp add: findSubscriptionType_def empty_database_def)
  have h3: "isl (env_createSubscriptionType ?E2 (createPayload ?E2 (req_calculation scenario_request)))"
    by (simp add: platform_down_def)
  have r1: "snd (subscription_route ?E1 empty_database scenario_request) = Status_500"
    by (simp add: route_eval)
  have r2: "snd (subscription_route ?E2 empty_database scenario_request) = Status_500"
    by (simp add: route_eval)
  show ?thesis
    using failed_resolution_persists_no_sale [of ?E1 empty_database scenario_request]
      failed_resolution_persists_no_sale [of ?E2 empty_database scenario_request]
      failed_resolution_persists_no_sale [of scenario_environment empty_database scenario_request
        "''Course 1.001''" 1]
      h1 h2 h3 r1 r2 scenario_route_response
    by simp
qed





end
